theory Spec2Isabelle
  imports Complex_Main "HOL-Library.Word"
begin

section \<open>Single-precision values\<close>

text \<open>
  The \<^verbatim>\<open>float\<close> variables of the camera are IEEE single-precision values: a finite
  number, an infinity or not-a-number. A finite value is kept as the real number it
  denotes; the two zeros are not told apart.
\<close>

datatype flt = Fin real | PInf | NInf | NaN

text \<open>
  Rounding a real number to single precision, to nearest with ties to even. The finite
  values are \<open>m \<cdot> 2\<^sup>e\<close> with \<open>|m| < 2\<^sup>2\<^sup>4\<close> and \<open>-149 \<le> e \<le> 104\<close>. \<open>float_exp_from\<close>
  looks for the exponent of the binade that holds the magnitude \<open>a\<close>, from \<open>e\<close>
  upwards and no further than 104.
\<close>

function float_exp_from :: "int \<Rightarrow> real \<Rightarrow> int" where
  "float_exp_from e a = (if e < 104 \<and> 2 powi (e + 24) \<le> a then float_exp_from (e + 1) a else e)"
  by pat_completeness auto
termination
  by (relation "measure (\<lambda>(e, a). nat (104 - e))") auto

declare float_exp_from.simps [simp del]

definition float_exp :: "real \<Rightarrow> int" where
  "float_exp x = float_exp_from (- 149) \<bar>x\<bar>"

definition round_half_even :: "real \<Rightarrow> int" where
  "round_half_even q =
     (let f = \<lfloor>q\<rfloor>; d = q - of_int f
      in if d < 1 / 2 then f else if 1 / 2 < d then f + 1 else if even f then f else f + 1)"

text \<open>A result that rounds to \<open>2\<^sup>1\<^sup>2\<^sup>8\<close> or beyond in magnitude overflows to an infinity.\<close>

definition float_round :: "real \<Rightarrow> flt" where
  "float_round x =
     (let e = float_exp x; r = of_int (round_half_even (x / 2 powi e)) * 2 powi e
      in if 2 ^ 128 \<le> r then PInf else if r \<le> - (2 ^ 128) then NInf else Fin r)"

text \<open>
  \<^verbatim>\<open>static_cast<float>\<close> of a \<^verbatim>\<open>double\<close>. The finite doubles are real numbers;
  one that is out of the range of \<^verbatim>\<open>float\<close> becomes an infinity (the C++ standard
  leaves that case undefined, IEEE hardware rounds).
\<close>

definition static_cast_float :: "real \<Rightarrow> flt" where
  "static_cast_float x = float_round x"

fun is_finite :: "flt \<Rightarrow> bool" where
  "is_finite (Fin x) = True"
| "is_finite _ = False"

text \<open>For the sign of a product or quotient with an infinity.\<close>

fun positive :: "flt \<Rightarrow> bool" where
  "positive (Fin x) = (0 < x)"
| "positive PInf = True"
| "positive _ = False"

fun fneg :: "flt \<Rightarrow> flt" where
  "fneg (Fin x) = Fin (- x)"
| "fneg PInf = NInf"
| "fneg NInf = PInf"
| "fneg NaN = NaN"

text \<open>The arithmetic of \<^verbatim>\<open>float\<close>: the exact result rounded, and the IEEE rules for the rest.\<close>

fun fadd :: "flt \<Rightarrow> flt \<Rightarrow> flt" where
  "fadd (Fin x) (Fin y) = float_round (x + y)"
| "fadd NaN b = NaN"
| "fadd a NaN = NaN"
| "fadd PInf NInf = NaN"
| "fadd NInf PInf = NaN"
| "fadd PInf b = PInf"
| "fadd NInf b = NInf"
| "fadd a PInf = PInf"
| "fadd a NInf = NInf"

definition fsub :: "flt \<Rightarrow> flt \<Rightarrow> flt" where
  "fsub a b = fadd a (fneg b)"

fun fmul :: "flt \<Rightarrow> flt \<Rightarrow> flt" where
  "fmul (Fin x) (Fin y) = float_round (x * y)"
| "fmul NaN b = NaN"
| "fmul a NaN = NaN"
| "fmul a b = (if a = Fin 0 \<or> b = Fin 0 then NaN
               else if positive a = positive b then PInf else NInf)"

fun fdiv :: "flt \<Rightarrow> flt \<Rightarrow> flt" where
  "fdiv (Fin x) (Fin y) =
     (if y = 0 then (if x = 0 then NaN else if 0 < x then PInf else NInf)
      else float_round (x / y))"
| "fdiv NaN b = NaN"
| "fdiv a NaN = NaN"
| "fdiv (Fin x) b = Fin 0"
| "fdiv a (Fin y) = (if positive a = (0 \<le> y) then PInf else NInf)"
| "fdiv a b = NaN"

fun fsqrt :: "flt \<Rightarrow> flt" where
  "fsqrt (Fin x) = (if x < 0 then NaN else float_round (sqrt x))"
| "fsqrt PInf = PInf"
| "fsqrt a = NaN"

text \<open>\<^verbatim>\<open>cos\<close> and \<^verbatim>\<open>sin\<close> on a \<^verbatim>\<open>float\<close>, taken as correctly rounded.\<close>

fun fcos :: "flt \<Rightarrow> flt" where
  "fcos (Fin x) = float_round (cos x)"
| "fcos a = NaN"

fun fsin :: "flt \<Rightarrow> flt" where
  "fsin (Fin x) = float_round (sin x)"
| "fsin a = NaN"

text \<open>\<^verbatim>\<open>a < b\<close> on floats: false whenever one of them is not a number.\<close>

fun flt_less :: "flt \<Rightarrow> flt \<Rightarrow> bool" where
  "flt_less (Fin x) (Fin y) = (x < y)"
| "flt_less NaN b = False"
| "flt_less a NaN = False"
| "flt_less PInf b = False"
| "flt_less a NInf = False"
| "flt_less a b = True"

type_synonym fvec3 = "flt \<times> flt \<times> flt"
type_synonym fvec4 = "flt \<times> flt \<times> flt \<times> flt"
type_synonym fmat4 = "fvec4 \<times> fvec4 \<times> fvec4 \<times> fvec4"

section \<open>Data model of SceneManager\<close>

text \<open>
  The \<^verbatim>\<open>float\<close> literals of the source (transforms, colours, materials, lights,
  projection) and the matrices built from them are modelled as real numbers; so are
  the finite \<^verbatim>\<open>double\<close> values GLFW hands out. The \<^verbatim>\<open>float\<close> statics of
  \<^verbatim>\<open>RenderScene\<close> and all that is computed from them are single-precision values.
  The C++ \<^verbatim>\<open>int\<close> values are modelled as unbounded integers: the only one that grows
  is the texture count, and the model stops with a fault at the first index outside
  the array, long before the count could wrap around. Console output
  (\<^verbatim>\<open>std::cout\<close>) is not modelled.
\<close>

type_synonym vec2 = "real \<times> real"
type_synonym vec3 = "real \<times> real \<times> real"
type_synonym vec4 = "real \<times> real \<times> real \<times> real"

text \<open>A \<^verbatim>\<open>glm::mat4\<close> is column-major: four columns, each a \<^verbatim>\<open>vec4\<close>.\<close>

type_synonym mat4 = "vec4 \<times> vec4 \<times> vec4 \<times> vec4"

text \<open>
  \<^verbatim>\<open>struct TEXTURE_INFO { std::string tag; uint32_t ID; }\<close>. Both structs of the
  header have a field \<^verbatim>\<open>tag\<close>; here they are \<open>tex_tag\<close> and \<open>mat_tag\<close>.
\<close>

record TEXTURE_INFO =
  tex_tag :: string
  tex_ID :: "32 word"

text \<open>\<^verbatim>\<open>struct OBJECT_MATERIAL\<close>, with the fields in the order of the header.\<close>

record OBJECT_MATERIAL =
  ambientStrength :: real
  ambientColor :: vec3
  diffuseColor :: vec3
  specularColor :: vec3
  shininess :: real
  mat_tag :: string

text \<open>
  The collaborators of the class (the shader manager, the mesh object, OpenGL, GLFW and
  the image decoder) are not part of the sources. What the code does to them is recorded
  as the sequence of calls it makes, in order.
\<close>

datatype uval =
    IntV int
  | FloatV real
  | Vec2V vec2
  | Vec3V vec3
  | Vec4V vec4
  | Mat4V mat4
  | Vec3F fvec3
  | Mat4F fmat4
  | Sampler2DV int

datatype call =
    SetUniform string uval
  | LoadPlaneMesh | LoadCylinderMesh | LoadTorusMesh
  | DrawPlaneMesh | DrawCylinderMesh | DrawTorusMesh
  | stbi_set_flip_vertically_on_load bool
  | stbi_image_free
  | glGenTextures "32 word"
  | glBindTexture "32 word"
  | glTexParameteri string string
  | glTexImage2D string int int
  | glGenerateMipmap
  | glActiveTexture int
  | glDeleteTextures "32 word"
  | glClearColor vec4
  | glClear
  | glfwSetWindowUserPointer
  | glfwSetScrollCallback

text \<open>
  Some operations of the source have no defined result: dereferencing the shader manager
  pointer when it is \<^verbatim>\<open>NULL\<close>, and reading or writing \<^verbatim>\<open>m_textureIDs[i]\<close> with
  \<open>i\<close> outside \<open>0..15\<close>. The source has no check there and goes on with whatever the
  memory holds; the model stops with a fault instead of inventing a result. A fault is
  never a value the code returns.
\<close>

datatype fault = NullDereference | ReadPastArray | WritePastArray

text \<open>The object a non-null \<^verbatim>\<open>ShaderManager*\<close> points to; its state is the calls made on it.\<close>

datatype ShaderManager = ShaderManagerObject

text \<open>The function-local \<^verbatim>\<open>static\<close> variables of \<^verbatim>\<open>RenderScene\<close>.\<close>

record camera =
  cameraPos :: fvec3
  cameraFront :: fvec3
  cameraUp :: fvec3
  yaw :: flt
  pitch :: flt
  lastX :: flt
  lastY :: flt
  speed :: flt
  firstMouse :: bool
  perspectiveMode :: bool
  lastFrame :: flt

text \<open>
  The private fields of \<^verbatim>\<open>class SceneManager\<close> (\<^verbatim>\<open>m_basicMeshes\<close> is always a
  valid object and only receives calls), the statics of \<^verbatim>\<open>RenderScene\<close>, and the
  calls made so far. \<^verbatim>\<open>m_textureIDs\<close> is the fixed array of 16 entries.
\<close>

record SceneManager =
  m_pShaderManager :: "ShaderManager option"
  m_loadedTextures :: int
  m_textureIDs :: "TEXTURE_INFO list"
  m_objectMaterials :: "OBJECT_MATERIAL list"
  statics :: camera
  calls :: "call list"

definition emit :: "call \<Rightarrow> SceneManager \<Rightarrow> SceneManager" where
  "emit c s = s\<lparr>calls := calls s @ [c]\<rparr>"

text \<open>A statement that cannot fault, as a step of a sequence that can.\<close>

definition ok :: "(SceneManager \<Rightarrow> SceneManager) \<Rightarrow> SceneManager \<Rightarrow> fault + SceneManager" where
  "ok f s = Inr (f s)"

text \<open>Statements in sequence; a fault ends the sequence.\<close>

fun seq :: "(SceneManager \<Rightarrow> fault + SceneManager) list \<Rightarrow> SceneManager \<Rightarrow> fault + SceneManager" where
  "seq [] s = Inr s"
| "seq (a # as) s = (case a s of Inl e \<Rightarrow> Inl e | Inr s' \<Rightarrow> seq as s')"

text \<open>\<^verbatim>\<open>m_pShaderManager->setXValue(name, v)\<close> with no null check before it.\<close>

definition shader_set :: "string \<Rightarrow> uval \<Rightarrow> SceneManager \<Rightarrow> fault + SceneManager" where
  "shader_set name v s =
     (case m_pShaderManager s of
        None \<Rightarrow> Inl NullDereference
      | Some _ \<Rightarrow> Inr (emit (SetUniform name v) s))"

section \<open>Texture and material lookup\<close>

text \<open>The tag of \<^verbatim>\<open>m_textureIDs[index]\<close>; indexing outside the array is a fault.\<close>

definition texture_at :: "SceneManager \<Rightarrow> int \<Rightarrow> fault + TEXTURE_INFO" where
  "texture_at s index =
     (if 0 \<le> index \<and> index < 16 \<and> nat index < length (m_textureIDs s)
      then Inr (m_textureIDs s ! nat index) else Inl ReadPastArray)"

text \<open>
  The \<^verbatim>\<open>while\<close> loop of \<^verbatim>\<open>FindTextureID\<close>, on its three locals
  \<open>(textureID, index, bFound)\<close>. The \<^verbatim>\<open>uint32_t\<close> handle is assigned to an
  \<^verbatim>\<open>int\<close>: its two's complement reading.
\<close>

function FindTextureID_loop :: "SceneManager \<Rightarrow> string \<Rightarrow> int \<times> int \<times> bool \<Rightarrow> fault + int" where
  "FindTextureID_loop s tag (textureID, index, bFound) =
     (if index < m_loadedTextures s \<and> bFound = False then
        (case texture_at s index of
           Inl e \<Rightarrow> Inl e
         | Inr t \<Rightarrow>
             if tex_tag t = tag
             then FindTextureID_loop s tag (sint (tex_ID t), index, True)
             else FindTextureID_loop s tag (textureID, index + 1, bFound))
      else Inr textureID)"
  by pat_completeness auto
termination
  by (relation "measure (\<lambda>(s, tag, textureID, index, bFound).
        2 * nat (m_loadedTextures s - index) + (if bFound then 0 else 1))") auto

declare FindTextureID_loop.simps [simp del]

definition FindTextureID :: "SceneManager \<Rightarrow> string \<Rightarrow> fault + int" where
  "FindTextureID s tag = FindTextureID_loop s tag (-1, 0, False)"

text \<open>The \<^verbatim>\<open>while\<close> loop of \<^verbatim>\<open>FindTextureSlot\<close>, on \<open>(textureSlot, index, bFound)\<close>.\<close>

function FindTextureSlot_loop :: "SceneManager \<Rightarrow> string \<Rightarrow> int \<times> int \<times> bool \<Rightarrow> fault + int" where
  "FindTextureSlot_loop s tag (textureSlot, index, bFound) =
     (if index < m_loadedTextures s \<and> bFound = False then
        (case texture_at s index of
           Inl e \<Rightarrow> Inl e
         | Inr t \<Rightarrow>
             if tex_tag t = tag
             then FindTextureSlot_loop s tag (index, index, True)
             else FindTextureSlot_loop s tag (textureSlot, index + 1, bFound))
      else Inr textureSlot)"
  by pat_completeness auto
termination
  by (relation "measure (\<lambda>(s, tag, textureSlot, index, bFound).
        2 * nat (m_loadedTextures s - index) + (if bFound then 0 else 1))") auto

declare FindTextureSlot_loop.simps [simp del]

definition FindTextureSlot :: "SceneManager \<Rightarrow> string \<Rightarrow> fault + int" where
  "FindTextureSlot s tag = FindTextureSlot_loop s tag (-1, 0, False)"

text \<open>
  The loop of \<^verbatim>\<open>FindMaterial\<close> on \<open>(index, bFound)\<close> and the caller's
  \<^verbatim>\<open>material\<close>, which is passed by reference and returned with the result.
\<close>

function FindMaterial_loop ::
  "SceneManager \<Rightarrow> string \<Rightarrow> nat \<times> bool \<times> OBJECT_MATERIAL \<Rightarrow> bool \<times> OBJECT_MATERIAL" where
  "FindMaterial_loop s tag (index, bFound, material) =
     (if index < length (m_objectMaterials s) \<and> \<not> bFound then
        (if mat_tag (m_objectMaterials s ! index) = tag
         then FindMaterial_loop s tag (index, True, m_objectMaterials s ! index)
         else FindMaterial_loop s tag (index + 1, bFound, material))
      else (bFound, material))"
  by pat_completeness auto
termination
  by (relation "measure (\<lambda>(s, tag, index, bFound, material).
        2 * (length (m_objectMaterials s) - index) + (if bFound then 0 else 1))") auto

declare FindMaterial_loop.simps [simp del]

definition FindMaterial :: "SceneManager \<Rightarrow> string \<Rightarrow> OBJECT_MATERIAL \<Rightarrow> bool \<times> OBJECT_MATERIAL" where
  "FindMaterial s tag material =
     (if m_objectMaterials s = [] then (False, material)
      else FindMaterial_loop s tag (0, False, material))"

section \<open>The glm functions the code calls\<close>

text \<open>
  glm is an external library and not part of the sources. Its functions are given here
  by the formulas of its documentation: over the reals where the code applies them to
  literals, over single-precision values where it applies them to the camera.
\<close>

definition glm_radians :: "real \<Rightarrow> real" where
  "glm_radians degrees = degrees * (pi / 180)"

definition vec3_splat :: "real \<Rightarrow> vec3" where
  "vec3_splat a = (a, a, a)"

fun vec3_scale :: "real \<Rightarrow> vec3 \<Rightarrow> vec3" where
  "vec3_scale k (x, y, z) = (k * x, k * y, k * z)"

fun glm_dot :: "vec3 \<Rightarrow> vec3 \<Rightarrow> real" where
  "glm_dot (a, b, c) (x, y, z) = a * x + b * y + c * z"

definition glm_normalize :: "vec3 \<Rightarrow> vec3" where
  "glm_normalize v = vec3_scale (1 / sqrt (glm_dot v v)) v"

fun vec4_add :: "vec4 \<Rightarrow> vec4 \<Rightarrow> vec4" where
  "vec4_add (a, b, c, d) (x, y, z, w) = (a + x, b + y, c + z, d + w)"

fun vec4_scale :: "vec4 \<Rightarrow> real \<Rightarrow> vec4" where
  "vec4_scale (x, y, z, w) k = (x * k, y * k, z * k, w * k)"

text \<open>\<^verbatim>\<open>mat4 * vec4\<close>: the columns of the matrix weighted by the components of the vector.\<close>

fun mat4_mul_vec4 :: "mat4 \<Rightarrow> vec4 \<Rightarrow> vec4" where
  "mat4_mul_vec4 (c0, c1, c2, c3) (x, y, z, w) =
     vec4_add (vec4_add (vec4_add (vec4_scale c0 x) (vec4_scale c1 y)) (vec4_scale c2 z))
       (vec4_scale c3 w)"

text \<open>\<^verbatim>\<open>mat4 * mat4\<close>: column \<open>j\<close> of the product is the left matrix times column \<open>j\<close> of the right.\<close>

fun mat4_mul :: "mat4 \<Rightarrow> mat4 \<Rightarrow> mat4" where
  "mat4_mul m1 (b0, b1, b2, b3) =
     (mat4_mul_vec4 m1 b0, mat4_mul_vec4 m1 b1, mat4_mul_vec4 m1 b2, mat4_mul_vec4 m1 b3)"

definition glm_scale :: "vec3 \<Rightarrow> mat4" where
  "glm_scale v = (case v of (x, y, z) \<Rightarrow>
     ((x, 0, 0, 0), (0, y, 0, 0), (0, 0, z, 0), (0, 0, 0, 1)))"

definition glm_translate :: "vec3 \<Rightarrow> mat4" where
  "glm_translate v = (case v of (x, y, z) \<Rightarrow>
     ((1, 0, 0, 0), (0, 1, 0, 0), (0, 0, 1, 0), (x, y, z, 1)))"

text \<open>\<^verbatim>\<open>glm::rotate(angle, axis)\<close> of \<^verbatim>\<open>glm/gtx/transform.hpp\<close>: the axis is normalised.\<close>

definition glm_rotate :: "real \<Rightarrow> vec3 \<Rightarrow> mat4" where
  "glm_rotate angle v =
     (let c = cos angle; s = sin angle in
      case glm_normalize v of (ax, ay, az) \<Rightarrow>
      case vec3_scale (1 - c) (ax, ay, az) of (tx, ty, tz) \<Rightarrow>
        ((c + tx * ax, tx * ay + s * az, tx * az - s * ay, 0),
         (ty * ax - s * az, c + ty * ay, ty * az + s * ax, 0),
         (tz * ax + s * ay, tz * ay - s * ax, c + tz * az, 0),
         (0, 0, 0, 1)))"

text \<open>The same library on \<^verbatim>\<open>float\<close> vectors, as the camera code uses it.\<close>

text \<open>\<^verbatim>\<open>glm::radians\<close>: a multiplication by the \<^verbatim>\<open>float\<close> nearest to \<open>\<pi> / 180\<close>.\<close>

definition glm_radians_f :: "flt \<Rightarrow> flt" where
  "glm_radians_f degrees = fmul degrees (float_round 0.01745329251994329576923690768489)"

text \<open>\<^verbatim>\<open>glm::max(x, y)\<close> is \<^verbatim>\<open>(x < y) ? y : x\<close>, \<^verbatim>\<open>glm::min(x, y)\<close> is \<^verbatim>\<open>(y < x) ? y : x\<close>.\<close>

definition glm_max :: "flt \<Rightarrow> flt \<Rightarrow> flt" where
  "glm_max x y = (if flt_less x y then y else x)"

definition glm_min :: "flt \<Rightarrow> flt \<Rightarrow> flt" where
  "glm_min x y = (if flt_less y x then y else x)"

definition glm_clamp :: "flt \<Rightarrow> flt \<Rightarrow> flt \<Rightarrow> flt" where
  "glm_clamp x minVal maxVal = glm_min (glm_max x minVal) maxVal"

fun fvec3_add :: "fvec3 \<Rightarrow> fvec3 \<Rightarrow> fvec3" where
  "fvec3_add (a, b, c) (x, y, z) = (fadd a x, fadd b y, fadd c z)"

fun fvec3_sub :: "fvec3 \<Rightarrow> fvec3 \<Rightarrow> fvec3" where
  "fvec3_sub (a, b, c) (x, y, z) = (fsub a x, fsub b y, fsub c z)"

fun fvec3_scale :: "flt \<Rightarrow> fvec3 \<Rightarrow> fvec3" where
  "fvec3_scale k (x, y, z) = (fmul k x, fmul k y, fmul k z)"

fun glm_dot_f :: "fvec3 \<Rightarrow> fvec3 \<Rightarrow> flt" where
  "glm_dot_f (a, b, c) (x, y, z) = fadd (fadd (fmul a x) (fmul b y)) (fmul c z)"

fun glm_cross :: "fvec3 \<Rightarrow> fvec3 \<Rightarrow> fvec3" where
  "glm_cross (a, b, c) (x, y, z) =
     (fsub (fmul b z) (fmul y c), fsub (fmul c x) (fmul z a), fsub (fmul a y) (fmul x b))"

text \<open>\<^verbatim>\<open>glm::normalize(v)\<close> is \<^verbatim>\<open>v * inversesqrt(dot(v, v))\<close>, with \<open>1 / sqrt\<close> for the latter.\<close>

definition glm_normalize_f :: "fvec3 \<Rightarrow> fvec3" where
  "glm_normalize_f v = fvec3_scale (fdiv (Fin 1) (fsqrt (glm_dot_f v v))) v"

text \<open>\<^verbatim>\<open>glm::lookAt\<close> (right-handed).\<close>

definition glm_lookAt :: "fvec3 \<Rightarrow> fvec3 \<Rightarrow> fvec3 \<Rightarrow> fmat4" where
  "glm_lookAt eye center up =
     (let f = glm_normalize_f (fvec3_sub center eye);
          s = glm_normalize_f (glm_cross f up);
          u = glm_cross s f in
      case (s, u, f) of ((sx, sy, sz), (ux, uy, uz), (fx, fy, fz)) \<Rightarrow>
        ((sx, ux, fneg fx, Fin 0),
         (sy, uy, fneg fy, Fin 0),
         (sz, uz, fneg fz, Fin 0),
         (fneg (glm_dot_f s eye), fneg (glm_dot_f u eye), glm_dot_f f eye, Fin 1)))"

text \<open>\<^verbatim>\<open>glm::perspective\<close> (right-handed, depth range \<open>-1..1\<close>).\<close>

definition glm_perspective :: "real \<Rightarrow> real \<Rightarrow> real \<Rightarrow> real \<Rightarrow> mat4" where
  "glm_perspective fovy aspect zNear zFar =
     (let tanHalfFovy = tan (fovy / 2) in
        ((1 / (aspect * tanHalfFovy), 0, 0, 0),
         (0, 1 / tanHalfFovy, 0, 0),
         (0, 0, - (zFar + zNear) / (zFar - zNear), - 1),
         (0, 0, - (2 * zFar * zNear) / (zFar - zNear), 0)))"

text \<open>\<^verbatim>\<open>glm::ortho\<close> with near and far planes.\<close>

definition glm_ortho :: "real \<Rightarrow> real \<Rightarrow> real \<Rightarrow> real \<Rightarrow> real \<Rightarrow> real \<Rightarrow> mat4" where
  "glm_ortho left right bottom topp zNear zFar =
     ((2 / (right - left), 0, 0, 0),
      (0, 2 / (topp - bottom), 0, 0),
      (0, 0, - 2 / (zFar - zNear), 0),
      (- (right + left) / (right - left), - (topp + bottom) / (topp - bottom),
       - (zFar + zNear) / (zFar - zNear), 1))"

section \<open>The texture registry\<close>

text \<open>What \<^verbatim>\<open>stbi_load\<close> reports of a decoded image (the pixel data is not modelled).\<close>

record image =
  width :: int
  height :: int
  colorChannels :: int

text \<open>
  \<^verbatim>\<open>CreateGLTexture(filename, tag)\<close>. The file system is the function \<open>stbi_load\<close>
  (\<open>None\<close>: the image could not be decoded); \<open>textureID\<close> is the name
  \<^verbatim>\<open>glGenTextures\<close> hands out. The result is the returned \<^verbatim>\<open>bool\<close> and the new state.
\<close>

definition CreateGLTexture ::
  "(string \<Rightarrow> image option) \<Rightarrow> 32 word \<Rightarrow> string \<Rightarrow> string \<Rightarrow> SceneManager
     \<Rightarrow> fault + bool \<times> SceneManager" where
  "CreateGLTexture stbi_load textureID filename tag s =
     (let s1 = emit (stbi_set_flip_vertically_on_load True) s in
      case stbi_load filename of
        Some img \<Rightarrow>
          (let s2 = emit (glTexParameteri ''GL_TEXTURE_MAG_FILTER'' ''GL_LINEAR'')
                     (emit (glTexParameteri ''GL_TEXTURE_MIN_FILTER'' ''GL_LINEAR'')
                     (emit (glTexParameteri ''GL_TEXTURE_WRAP_T'' ''GL_REPEAT'')
                     (emit (glTexParameteri ''GL_TEXTURE_WRAP_S'' ''GL_REPEAT'')
                     (emit (glBindTexture textureID)
                     (emit (glGenTextures textureID) s1)))));
               upload = (\<lambda>fmt. emit (glBindTexture 0) (emit stbi_image_free (emit glGenerateMipmap
                           (emit (glTexImage2D fmt (width img) (height img)) s2))));
               store = (\<lambda>s3.
                  if 0 \<le> m_loadedTextures s3 \<and> m_loadedTextures s3 < 16
                     \<and> nat (m_loadedTextures s3) < length (m_textureIDs s3)
                  then Inr (True, s3\<lparr>
                     m_textureIDs := (m_textureIDs s3)[nat (m_loadedTextures s3) :=
                        \<lparr>tex_tag = tag, tex_ID = textureID\<rparr>],
                     m_loadedTextures := m_loadedTextures s3 + 1\<rparr>)
                  else Inl WritePastArray)
           in if colorChannels img = 3 then store (upload ''GL_RGB8'')
              else if colorChannels img = 4 then store (upload ''GL_RGBA8'')
              else Inr (False, s2))
      | None \<Rightarrow> Inr (False, s1))"

text \<open>The \<^verbatim>\<open>for\<close> loop of \<^verbatim>\<open>BindGLTextures\<close>, from \<open>i\<close> on.\<close>

function BindGLTextures_loop :: "int \<Rightarrow> SceneManager \<Rightarrow> fault + SceneManager" where
  "BindGLTextures_loop i s =
     (if i < m_loadedTextures s then
        (case texture_at s i of
           Inl e \<Rightarrow> Inl e
         | Inr t \<Rightarrow> BindGLTextures_loop (i + 1)
                     (emit (glBindTexture (tex_ID t)) (emit (glActiveTexture i) s)))
      else Inr s)"
  by pat_completeness auto
termination
  by (relation "measure (\<lambda>(i, s). nat (m_loadedTextures s - i))") (auto simp: emit_def)

declare BindGLTextures_loop.simps [simp del]

definition BindGLTextures :: "SceneManager \<Rightarrow> fault + SceneManager" where
  "BindGLTextures s = BindGLTextures_loop 0 s"

function DestroyGLTextures_loop :: "int \<Rightarrow> SceneManager \<Rightarrow> fault + SceneManager" where
  "DestroyGLTextures_loop i s =
     (if i < m_loadedTextures s then
        (case texture_at s i of
           Inl e \<Rightarrow> Inl e
         | Inr t \<Rightarrow> DestroyGLTextures_loop (i + 1) (emit (glDeleteTextures (tex_ID t)) s))
      else Inr s)"
  by pat_completeness auto
termination
  by (relation "measure (\<lambda>(i, s). nat (m_loadedTextures s - i))") (auto simp: emit_def)

declare DestroyGLTextures_loop.simps [simp del]

definition DestroyGLTextures :: "SceneManager \<Rightarrow> fault + SceneManager" where
  "DestroyGLTextures s = DestroyGLTextures_loop 0 s"

section \<open>The shader setters\<close>

text \<open>The model matrix \<^verbatim>\<open>SetTransformations\<close> computes in its local \<^verbatim>\<open>modelView\<close>.\<close>

definition modelView :: "vec3 \<Rightarrow> real \<Rightarrow> real \<Rightarrow> real \<Rightarrow> vec3 \<Rightarrow> mat4" where
  "modelView scaleXYZ XrotationDegrees YrotationDegrees ZrotationDegrees positionXYZ =
     (let scale = glm_scale scaleXYZ;
          rotationX = glm_rotate (glm_radians XrotationDegrees) (1, 0, 0);
          rotationY = glm_rotate (glm_radians YrotationDegrees) (0, 1, 0);
          rotationZ = glm_rotate (glm_radians ZrotationDegrees) (0, 0, 1);
          translation = glm_translate positionXYZ
      in mat4_mul (mat4_mul (mat4_mul (mat4_mul translation rotationX) rotationY) rotationZ) scale)"

definition SetTransformations ::
  "vec3 \<Rightarrow> real \<Rightarrow> real \<Rightarrow> real \<Rightarrow> vec3 \<Rightarrow> SceneManager \<Rightarrow> SceneManager" where
  "SetTransformations scaleXYZ XrotationDegrees YrotationDegrees ZrotationDegrees positionXYZ s =
     (if m_pShaderManager s \<noteq> None
      then emit (SetUniform ''model'' (Mat4V (modelView scaleXYZ XrotationDegrees
                   YrotationDegrees ZrotationDegrees positionXYZ))) s
      else s)"

definition SetShaderColor :: "real \<Rightarrow> real \<Rightarrow> real \<Rightarrow> real \<Rightarrow> SceneManager \<Rightarrow> SceneManager" where
  "SetShaderColor redColorValue greenColorValue blueColorValue alphaValue s =
     (let currentColor = (redColorValue, greenColorValue, blueColorValue, alphaValue) in
      if m_pShaderManager s \<noteq> None
      then emit (SetUniform ''objectColor'' (Vec4V currentColor))
             (emit (SetUniform ''bUseTexture'' (IntV 0)) s)
      else s)"

definition SetShaderTexture :: "string \<Rightarrow> SceneManager \<Rightarrow> fault + SceneManager" where
  "SetShaderTexture textureTag s =
     (if m_pShaderManager s \<noteq> None then
        (let s1 = emit (SetUniform ''bUseTexture'' (IntV 1)) s in
         case FindTextureSlot s1 textureTag of
           Inl e \<Rightarrow> Inl e
         | Inr textureID \<Rightarrow> Inr (emit (SetUniform ''objectTexture'' (Sampler2DV textureID)) s1))
      else Inr s)"

definition SetTextureUVScale :: "real \<Rightarrow> real \<Rightarrow> SceneManager \<Rightarrow> SceneManager" where
  "SetTextureUVScale u v s =
     (if m_pShaderManager s \<noteq> None then emit (SetUniform ''UVscale'' (Vec2V (u, v))) s else s)"

text \<open>
  The local \<^verbatim>\<open>OBJECT_MATERIAL material;\<close> of \<^verbatim>\<open>SetShaderMaterial\<close> before
  \<^verbatim>\<open>FindMaterial\<close> writes it. It is read only after \<^verbatim>\<open>FindMaterial\<close> returned true,
  which overwrites every field.
\<close>

definition unwritten_material :: OBJECT_MATERIAL where
  "unwritten_material = \<lparr>ambientStrength = 0, ambientColor = (0, 0, 0), diffuseColor = (0, 0, 0),
     specularColor = (0, 0, 0), shininess = 0, mat_tag = []\<rparr>"

definition SetShaderMaterial :: "string \<Rightarrow> SceneManager \<Rightarrow> fault + SceneManager" where
  "SetShaderMaterial materialTag s =
     (if m_objectMaterials s \<noteq> [] then
        (case FindMaterial s materialTag unwritten_material of
           (True, material) \<Rightarrow>
             seq [shader_set ''material.ambientColor'' (Vec3V (ambientColor material)),
                  shader_set ''material.ambientStrength'' (FloatV (ambientStrength material)),
                  shader_set ''material.diffuseColor'' (Vec3V (diffuseColor material)),
                  shader_set ''material.specularColor'' (Vec3V (specularColor material)),
                  shader_set ''material.shininess'' (FloatV (shininess material))] s
         | (False, material) \<Rightarrow> Inr s)
      else Inr s)"

section \<open>Lights and scene set-up\<close>

text \<open>
  The uniforms \<^verbatim>\<open>SetupSceneLights\<close> sets, in the order of the source: the name and
  the value of each \<^verbatim>\<open>m_pShaderManager->setVec3Value\<close> or \<^verbatim>\<open>setFloatValue\<close> call.
\<close>

definition light_uniforms :: "fvec3 \<Rightarrow> fvec3 \<Rightarrow> (string \<times> uval) list" where
  "light_uniforms camPos camFront =
     [(''dirLight.direction'', Vec3V (- 0.2, - 1.0, - 0.1)),
      (''dirLight.ambient'', Vec3V (vec3_splat 0.4)),
      (''dirLight.diffuse'', Vec3V (vec3_splat 0.7)),
      (''dirLight.specular'', Vec3V (vec3_splat 0.7)),
      (''pointLight.position'', Vec3V (0.0, 4.0, 6.0)),
      (''pointLight.ambient'', Vec3V (vec3_splat 0.25)),
      (''pointLight.diffuse'', Vec3V (vec3_splat 0.75)),
      (''pointLight.specular'', Vec3V (vec3_splat 1.0)),
      (''pointLight.constant'', FloatV 1.0),
      (''pointLight.linear'', FloatV 0.09),
      (''pointLight.quadratic'', FloatV 0.032),
      (''pointLight2.position'', Vec3V (- 4.0, 3.0, - 2.0)),
      (''pointLight2.ambient'', Vec3V (0.08, 0.04, 0.02)),
      (''pointLight2.diffuse'', Vec3V (0.3, 0.15, 0.08)),
      (''pointLight2.specular'', Vec3V (0.4, 0.2, 0.1)),
      (''pointLight2.constant'', FloatV 1.0),
      (''pointLight2.linear'', FloatV 0.14),
      (''pointLight2.quadratic'', FloatV 0.07),
      (''spotLight.position'', Vec3F camPos),
      (''spotLight.direction'', Vec3F camFront),
      (''spotLight.cutOff'', FloatV (cos (glm_radians 10.0))),
      (''spotLight.outerCutOff'', FloatV (cos (glm_radians 15.0))),
      (''spotLight.ambient'', Vec3V (vec3_splat 0.15)),
      (''spotLight.diffuse'', Vec3V (vec3_splat 0.8)),
      (''spotLight.specular'', Vec3V (vec3_splat 1.0)),
      (''spotLight.constant'', FloatV 1.0),
      (''spotLight.linear'', FloatV 0.09),
      (''spotLight.quadratic'', FloatV 0.032)]"

text \<open>Each of them is set through the pointer, with no null check.\<close>

definition SetupSceneLights :: "fvec3 \<Rightarrow> fvec3 \<Rightarrow> SceneManager \<Rightarrow> fault + SceneManager" where
  "SetupSceneLights camPos camFront =
     seq (map (\<lambda>(name, v). shader_set name v) (light_uniforms camPos camFront))"

definition woodMaterial :: OBJECT_MATERIAL where
  "woodMaterial = \<lparr>ambientStrength = 0.25, ambientColor = (0.15, 0.08, 0.03),
     diffuseColor = (0.5, 0.3, 0.1), specularColor = vec3_splat 0.5, shininess = 48.0,
     mat_tag = ''woodMaterial''\<rparr>"

definition whiteMaterial :: OBJECT_MATERIAL where
  "whiteMaterial = \<lparr>ambientStrength = 0.5, ambientColor = vec3_splat 0.4,
     diffuseColor = vec3_splat 1.0, specularColor = vec3_splat 1.2, shininess = 96.0,
     mat_tag = ''whiteMaterial''\<rparr>"

definition push_back :: "OBJECT_MATERIAL \<Rightarrow> SceneManager \<Rightarrow> SceneManager" where
  "push_back m s = s\<lparr>m_objectMaterials := m_objectMaterials s @ [m]\<rparr>"

text \<open>\<^verbatim>\<open>PrepareScene\<close>: the result of \<^verbatim>\<open>CreateGLTexture\<close> is only logged.\<close>

definition PrepareScene ::
  "(string \<Rightarrow> image option) \<Rightarrow> 32 word \<Rightarrow> SceneManager \<Rightarrow> fault + SceneManager" where
  "PrepareScene stbi_load textureID =
     seq [ok (emit LoadPlaneMesh),
          ok (emit LoadCylinderMesh),
          ok (emit LoadTorusMesh),
          (\<lambda>s. case CreateGLTexture stbi_load textureID ''Debug/wood.jpg'' ''wood'' s of
                  Inl e \<Rightarrow> Inl e
                | Inr (loaded, s') \<Rightarrow> Inr s'),
          ok (SetTextureUVScale 8.0 4.0),
          BindGLTextures,
          ok (push_back woodMaterial),
          ok (push_back whiteMaterial)]"

section \<open>The frame routine\<close>

datatype key =
    GLFW_KEY_W | GLFW_KEY_S | GLFW_KEY_A | GLFW_KEY_D
  | GLFW_KEY_Q | GLFW_KEY_E | GLFW_KEY_P | GLFW_KEY_O

text \<open>What the code reads from the window: the cursor position and which keys are down.\<close>

record GLFWwindow =
  cursorPos :: "real \<times> real"
  keyPressed :: "key \<Rightarrow> bool"

text \<open>What one invocation reads from GLFW: the current context (or \<^verbatim>\<open>NULL\<close>) and the time.\<close>

record frame =
  glfwGetCurrentContext :: "GLFWwindow option"
  glfwGetTime :: real

definition initial_camera :: camera where
  "initial_camera = \<lparr>cameraPos = (Fin 0.0, Fin 2.0, Fin 8.0),
     cameraFront = (Fin 0.0, Fin 0.0, Fin (- 1.0)),
     cameraUp = (Fin 0.0, Fin 1.0, Fin 0.0), yaw = Fin (- 90.0), pitch = Fin 0.0,
     lastX = Fin 400.0, lastY = Fin 300.0, speed = Fin 5.0, firstMouse = True,
     perspectiveMode = True, lastFrame = Fin 0.0\<rparr>"

text \<open>
  The section \<^verbatim>\<open>// Mouse input\<close>, up to the new \<^verbatim>\<open>cameraFront\<close>. \<open>xpos\<close> and
  \<open>ypos\<close> are the \<^verbatim>\<open>double\<close> readings of \<^verbatim>\<open>glfwGetCursorPos\<close>; every use of them
  goes through \<^verbatim>\<open>static_cast<float>\<close>.
\<close>

definition mouse_input :: "real \<Rightarrow> real \<Rightarrow> camera \<Rightarrow> camera" where
  "mouse_input xpos ypos c =
     (let c1 = (if firstMouse c
                then c\<lparr>lastX := static_cast_float xpos, lastY := static_cast_float ypos,
                       firstMouse := False\<rparr>
                else c);
          xoffset = fsub (static_cast_float xpos) (lastX c1);
          yoffset = fsub (lastY c1) (static_cast_float ypos);
          c2 = c1\<lparr>lastX := static_cast_float xpos, lastY := static_cast_float ypos\<rparr>;
          sensitivity = float_round 0.1;
          xoffset = fmul xoffset sensitivity;
          yoffset = fmul yoffset sensitivity;
          c3 = c2\<lparr>yaw := fadd (yaw c2) xoffset\<rparr>;
          c4 = c3\<lparr>pitch := fadd (pitch c3) yoffset\<rparr>;
          c5 = c4\<lparr>pitch := glm_clamp (pitch c4) (Fin (- 89.0)) (Fin 89.0)\<rparr>;
          front = (fmul (fcos (glm_radians_f (yaw c5))) (fcos (glm_radians_f (pitch c5))),
                   fsin (glm_radians_f (pitch c5)),
                   fmul (fsin (glm_radians_f (yaw c5))) (fcos (glm_radians_f (pitch c5))))
      in c5\<lparr>cameraFront := glm_normalize_f front\<rparr>)"

text \<open>The section \<^verbatim>\<open>// Keyboard input\<close>: six tests in the order of the source.\<close>

definition keyboard_input :: "(key \<Rightarrow> bool) \<Rightarrow> flt \<Rightarrow> camera \<Rightarrow> camera" where
  "keyboard_input pressed adjustedSpeed c =
     (let c1 = (if pressed GLFW_KEY_W
                then c\<lparr>cameraPos := fvec3_add (cameraPos c) (fvec3_scale adjustedSpeed (cameraFront c))\<rparr>
                else c);
          c2 = (if pressed GLFW_KEY_S
                then c1\<lparr>cameraPos := fvec3_sub (cameraPos c1) (fvec3_scale adjustedSpeed (cameraFront c1))\<rparr>
                else c1);
          c3 = (if pressed GLFW_KEY_A
                then c2\<lparr>cameraPos := fvec3_sub (cameraPos c2)
                       (fvec3_scale adjustedSpeed (glm_normalize_f (glm_cross (cameraFront c2) (cameraUp c2))))\<rparr>
                else c2);
          c4 = (if pressed GLFW_KEY_D
                then c3\<lparr>cameraPos := fvec3_add (cameraPos c3)
                       (fvec3_scale adjustedSpeed (glm_normalize_f (glm_cross (cameraFront c3) (cameraUp c3))))\<rparr>
                else c3);
          c5 = (if pressed GLFW_KEY_Q
                then c4\<lparr>cameraPos := fvec3_add (cameraPos c4) (fvec3_scale adjustedSpeed (cameraUp c4))\<rparr>
                else c4)
      in if pressed GLFW_KEY_E
         then c5\<lparr>cameraPos := fvec3_sub (cameraPos c5) (fvec3_scale adjustedSpeed (cameraUp c5))\<rparr>
         else c5)"

text \<open>The section \<^verbatim>\<open>// Projection toggle\<close>: the test of P, then the test of O.\<close>

definition projection_toggle :: "(key \<Rightarrow> bool) \<Rightarrow> camera \<Rightarrow> camera" where
  "projection_toggle pressed c =
     (let c1 = (if pressed GLFW_KEY_P then c\<lparr>perspectiveMode := True\<rparr> else c)
      in if pressed GLFW_KEY_O then c1\<lparr>perspectiveMode := False\<rparr> else c1)"

text \<open>
  Frame timing, mouse, keyboard and projection toggle: all updates of the statics.
  \<open>time\<close> is the \<^verbatim>\<open>double\<close> of \<^verbatim>\<open>glfwGetTime\<close>.
\<close>

definition update_camera :: "real \<Rightarrow> GLFWwindow \<Rightarrow> camera \<Rightarrow> camera" where
  "update_camera time window c =
     (let currentFrame = static_cast_float time;
          deltaTime = fsub currentFrame (lastFrame c);
          c1 = c\<lparr>lastFrame := currentFrame\<rparr>;
          adjustedSpeed = fmul (speed c1) deltaTime;
          xpos = fst (cursorPos window);
          ypos = snd (cursorPos window)
      in projection_toggle (keyPressed window)
           (keyboard_input (keyPressed window) adjustedSpeed (mouse_input xpos ypos c1)))"

definition view_matrix :: "camera \<Rightarrow> fmat4" where
  "view_matrix c = glm_lookAt (cameraPos c) (fvec3_add (cameraPos c) (cameraFront c)) (cameraUp c)"

definition projection_matrix :: "camera \<Rightarrow> mat4" where
  "projection_matrix c =
     (if perspectiveMode c
      then glm_perspective (glm_radians 45.0) (800.0 / 600.0) 0.1 100.0
      else glm_ortho (- 10.0) 10.0 (- 10.0) 10.0 0.1 100.0)"

text \<open>The eight objects, from \<^verbatim>\<open>// Floor (Wood Table)\<close> to the end of \<^verbatim>\<open>RenderScene\<close>.\<close>

definition draw_objects :: "(SceneManager \<Rightarrow> fault + SceneManager) list" where
  "draw_objects =
     [ok (SetTransformations (20.0, 1.0, 10.0) 0.0 0.0 0.0 (0.0, 0.0, 0.0)),
      ok (SetTextureUVScale 4.0 2.0),
      SetShaderTexture ''wood'',
      SetShaderMaterial ''woodMaterial'',
      ok (emit DrawPlaneMesh),
      shader_set ''bUseTexture'' (IntV 0),
      ok (SetTransformations (0.75, 1.125, 0.75) 0.0 0.0 0.0 (8.0, 0.5625, 0.0)),
      SetShaderMaterial ''whiteMaterial'',
      ok (SetShaderColor 1.0 1.0 1.0 1.0),
      ok (emit DrawCylinderMesh),
      ok (SetTransformations (0.375, 0.375, 0.0375) 90.0 0.0 0.0 (8.0, 1.125, 0.0)),
      ok (SetShaderColor 1.0 1.0 1.0 1.0),
      ok (emit DrawTorusMesh),
      ok (SetTransformations (0.3, 0.3, 0.075) 0.0 0.0 90.0 (8.75, 0.85, 0.0)),
      ok (SetShaderColor 1.0 1.0 1.0 1.0),
      ok (emit DrawTorusMesh),
      ok (SetTransformations (3.0, 0.2, 2.0) 0.0 15.0 0.0 (- 3.0, 0.2, 1.0)),
      ok (SetShaderColor 0.1 0.1 0.4 1.0),
      ok (emit DrawPlaneMesh),
      ok (SetTransformations (0.1, 2.0, 0.1) 90.0 15.0 0.0 (- 2.8, 0.5, 1.7)),
      ok (SetShaderColor 1.0 0.0 0.0 1.0),
      ok (emit DrawCylinderMesh),
      ok (SetTransformations (3.0, 0.05, 2.0) 0.0 (- 10.0) 0.0 (3.0, 0.075, - 2.0)),
      ok (SetShaderColor 0.75 0.75 0.75 1.0),
      ok (emit DrawPlaneMesh),
      ok (SetTransformations (3.0, 2.0, 1.0) (- 100.0) 0.0 0.0 (3.0, 1.15, - 2.95)),
      ok (SetShaderColor 0.2 0.2 0.2 1.0),
      ok (emit DrawPlaneMesh)]"

text \<open>
  \<^verbatim>\<open>RenderScene\<close>. Without a current context it returns at once. The scroll callback
  it registers is not modelled (it reaches \<^verbatim>\<open>cameraFront\<close> by pointer arithmetic
  from the address of \<^verbatim>\<open>cameraPos\<close>).
\<close>

definition RenderScene :: "frame \<Rightarrow> SceneManager \<Rightarrow> fault + SceneManager" where
  "RenderScene env s =
     (case glfwGetCurrentContext env of
        None \<Rightarrow> Inr s
      | Some window \<Rightarrow>
          seq ([ok (emit (glClearColor (0.05, 0.05, 0.1, 1.0))),
                ok (emit glClear),
                ok (emit glfwSetWindowUserPointer),
                ok (emit glfwSetScrollCallback),
                (\<lambda>s. shader_set ''viewPos'' (Vec3F (cameraPos (statics s))) s),
                shader_set ''bUseLighting'' (IntV 1),
                (\<lambda>s. SetupSceneLights (cameraPos (statics s)) (cameraFront (statics s)) s),
                ok (\<lambda>s. s\<lparr>statics := update_camera (glfwGetTime env) window (statics s)\<rparr>),
                (\<lambda>s. shader_set ''view'' (Mat4F (view_matrix (statics s))) s),
                (\<lambda>s. shader_set ''projection'' (Mat4V (projection_matrix (statics s))) s)]
               @ draw_objects) s)"

text \<open>Frames one after the other; a fault ends the run.\<close>

fun run_frames :: "frame list \<Rightarrow> SceneManager \<Rightarrow> fault + SceneManager" where
  "run_frames [] s = Inr s"
| "run_frames (env # envs) s =
     (case RenderScene env s of Inl e \<Rightarrow> Inl e | Inr s' \<Rightarrow> run_frames envs s')"

text \<open>
  The constructor. It initialises neither \<^verbatim>\<open>m_loadedTextures\<close> nor the handles of
  \<^verbatim>\<open>m_textureIDs\<close>: their values are whatever the memory holds, here \<open>n\<close> and \<open>ids\<close>.
\<close>

definition construct :: "ShaderManager option \<Rightarrow> int \<Rightarrow> (nat \<Rightarrow> 32 word) \<Rightarrow> SceneManager" where
  "construct pShaderManager n ids =
     \<lparr>m_pShaderManager = pShaderManager, m_loadedTextures = n,
      m_textureIDs = map (\<lambda>i. \<lparr>tex_tag = [], tex_ID = ids i\<rparr>) [0..<16],
      m_objectMaterials = [], statics = initial_camera, calls = []\<rparr>"

section \<open>Reading the recorded calls\<close>

fun is_draw :: "call \<Rightarrow> bool" where
  "is_draw DrawPlaneMesh = True"
| "is_draw DrawCylinderMesh = True"
| "is_draw DrawTorusMesh = True"
| "is_draw _ = False"

fun sets_uniform :: "string \<Rightarrow> call \<Rightarrow> bool" where
  "sets_uniform name (SetUniform n v) = (n = name)"
| "sets_uniform name _ = False"

text \<open>The value a uniform holds after the calls: the one set last.\<close>

fun uniform_value :: "call list \<Rightarrow> string \<Rightarrow> uval option" where
  "uniform_value [] name = None"
| "uniform_value (SetUniform n v # cs) name =
     (case uniform_value cs name of Some v' \<Rightarrow> Some v' | None \<Rightarrow> if n = name then Some v else None)"
| "uniform_value (c # cs) name = uniform_value cs name"

text \<open>
  The calls cut at the draws: each draw with the calls made since the draw before it
  (\<open>acc\<close> collects them).
\<close>

fun segments :: "call list \<Rightarrow> call list \<Rightarrow> (call list \<times> call) list" where
  "segments acc [] = []"
| "segments acc (c # cs) =
     (if is_draw c then (acc, c) # segments [] cs else segments (acc @ [c]) cs)"

text \<open>The value of a uniform at each draw (\<open>seen\<close>: the calls before).\<close>

fun at_draws :: "string \<Rightarrow> call list \<Rightarrow> call list \<Rightarrow> uval option list" where
  "at_draws name seen [] = []"
| "at_draws name seen (c # cs) =
     (if is_draw c then uniform_value seen name # at_draws name (seen @ [c]) cs
      else at_draws name (seen @ [c]) cs)"

text \<open>
  A draw is prepared when the calls since the previous draw set the model matrix, set
  a material or a colour, and set the use-texture flag.
\<close>

definition prepared :: "call list \<Rightarrow> bool" where
  "prepared seg =
     (list_ex (sets_uniform ''model'') seg
      \<and> (list_ex (sets_uniform ''material.diffuseColor'') seg
           \<or> list_ex (sets_uniform ''objectColor'') seg)
      \<and> list_ex (sets_uniform ''bUseTexture'') seg)"

text \<open>The calls \<open>SetShaderMaterial\<close> makes: five when the tag is found, none otherwise.\<close>

definition material_calls :: "SceneManager \<Rightarrow> string \<Rightarrow> call list" where
  "material_calls s materialTag =
     (if m_objectMaterials s \<noteq> [] then
        (case FindMaterial s materialTag unwritten_material of
           (True, material) \<Rightarrow>
             [SetUniform ''material.ambientColor'' (Vec3V (ambientColor material)),
              SetUniform ''material.ambientStrength'' (FloatV (ambientStrength material)),
              SetUniform ''material.diffuseColor'' (Vec3V (diffuseColor material)),
              SetUniform ''material.specularColor'' (Vec3V (specularColor material)),
              SetUniform ''material.shininess'' (FloatV (shininess material))]
         | (False, material) \<Rightarrow> [])
      else [])"

text \<open>
  The calls the eight objects make when there is a shader manager: \<open>slot\<close> is what
  \<open>FindTextureSlot\<close> answers for the tag wood, \<open>wood\<close> and \<open>white\<close> are the calls of
  the two \<open>SetShaderMaterial\<close>. That \<open>draw_objects\<close> makes exactly these calls is
  proved below.
\<close>

definition object_calls :: "int \<Rightarrow> call list \<Rightarrow> call list \<Rightarrow> call list" where
  "object_calls slot wood white =
     [SetUniform ''model'' (Mat4V (modelView (20.0, 1.0, 10.0) 0.0 0.0 0.0 (0.0, 0.0, 0.0))),
      SetUniform ''UVscale'' (Vec2V (4.0, 2.0)),
      SetUniform ''bUseTexture'' (IntV 1),
      SetUniform ''objectTexture'' (Sampler2DV slot)]
     @ wood @
     [DrawPlaneMesh,
      SetUniform ''bUseTexture'' (IntV 0),
      SetUniform ''model'' (Mat4V (modelView (0.75, 1.125, 0.75) 0.0 0.0 0.0 (8.0, 0.5625, 0.0)))]
     @ white @
     [SetUniform ''bUseTexture'' (IntV 0),
      SetUniform ''objectColor'' (Vec4V (1.0, 1.0, 1.0, 1.0)),
      DrawCylinderMesh,
      SetUniform ''model'' (Mat4V (modelView (0.375, 0.375, 0.0375) 90.0 0.0 0.0 (8.0, 1.125, 0.0))),
      SetUniform ''bUseTexture'' (IntV 0),
      SetUniform ''objectColor'' (Vec4V (1.0, 1.0, 1.0, 1.0)),
      DrawTorusMesh,
      SetUniform ''model'' (Mat4V (modelView (0.3, 0.3, 0.075) 0.0 0.0 90.0 (8.75, 0.85, 0.0))),
      SetUniform ''bUseTexture'' (IntV 0),
      SetUniform ''objectColor'' (Vec4V (1.0, 1.0, 1.0, 1.0)),
      DrawTorusMesh,
      SetUniform ''model'' (Mat4V (modelView (3.0, 0.2, 2.0) 0.0 15.0 0.0 (- 3.0, 0.2, 1.0))),
      SetUniform ''bUseTexture'' (IntV 0),
      SetUniform ''objectColor'' (Vec4V (0.1, 0.1, 0.4, 1.0)),
      DrawPlaneMesh,
      SetUniform ''model'' (Mat4V (modelView (0.1, 2.0, 0.1) 90.0 15.0 0.0 (- 2.8, 0.5, 1.7))),
      SetUniform ''bUseTexture'' (IntV 0),
      SetUniform ''objectColor'' (Vec4V (1.0, 0.0, 0.0, 1.0)),
      DrawCylinderMesh,
      SetUniform ''model'' (Mat4V (modelView (3.0, 0.05, 2.0) 0.0 (- 10.0) 0.0 (3.0, 0.075, - 2.0))),
      SetUniform ''bUseTexture'' (IntV 0),
      SetUniform ''objectColor'' (Vec4V (0.75, 0.75, 0.75, 1.0)),
      DrawPlaneMesh,
      SetUniform ''model'' (Mat4V (modelView (3.0, 2.0, 1.0) (- 100.0) 0.0 0.0 (3.0, 1.15, - 2.95))),
      SetUniform ''bUseTexture'' (IntV 0),
      SetUniform ''objectColor'' (Vec4V (0.2, 0.2, 0.2, 1.0)),
      DrawPlaneMesh]"

text \<open>
  The calls of one frame with a window: \<open>c\<close> is the camera before the input handling,
  \<open>c'\<close> the camera after it.
\<close>

definition frame_calls :: "camera \<Rightarrow> camera \<Rightarrow> int \<Rightarrow> call list \<Rightarrow> call list \<Rightarrow> call list" where
  "frame_calls c c' slot wood white =
     [glClearColor (0.05, 0.05, 0.1, 1.0), glClear, glfwSetWindowUserPointer, glfwSetScrollCallback,
      SetUniform ''viewPos'' (Vec3F (cameraPos c)),
      SetUniform ''bUseLighting'' (IntV 1)]
     @ map (\<lambda>(name, v). SetUniform name v) (light_uniforms (cameraPos c) (cameraFront c))
     @ [SetUniform ''view'' (Mat4F (view_matrix c')),
        SetUniform ''projection'' (Mat4V (projection_matrix c'))]
     @ object_calls slot wood white"

text \<open>The entries \<^verbatim>\<open>m_textureIDs[0 .. m_loadedTextures-1]\<close>: the registered textures.\<close>

definition registered :: "SceneManager \<Rightarrow> TEXTURE_INFO list" where
  "registered s = take (nat (m_loadedTextures s)) (m_textureIDs s)"

text \<open>The registry is intact: the array has its 16 entries and the count is within it.\<close>

definition registry_ok :: "SceneManager \<Rightarrow> bool" where
  "registry_ok s = (length (m_textureIDs s) = 16 \<and> m_loadedTextures s \<le> 16)"

section \<open>Example states\<close>

text \<open>A decoder that finds a 512 by 512 RGB image at the path \<^verbatim>\<open>PrepareScene\<close> loads.\<close>

definition example_load :: "string \<Rightarrow> image option" where
  "example_load filename =
     (if filename = ''Debug/wood.jpg'' then Some \<lparr>width = 512, height = 512, colorChannels = 3\<rparr>
      else None)"

text \<open>A decoder that finds a single-channel (greyscale) image everywhere.\<close>

definition grey_load :: "string \<Rightarrow> image option" where
  "grey_load filename = Some \<lparr>width = 64, height = 64, colorChannels = 1\<rparr>"

text \<open>An array entry that holds no texture.\<close>

definition blank :: TEXTURE_INFO where
  "blank = \<lparr>tex_tag = [], tex_ID = 0\<rparr>"

text \<open>Three textures, two of them tagged wood; three materials, two of them tagged woodMaterial.\<close>

definition example_registry :: SceneManager where
  "example_registry =
     \<lparr>m_pShaderManager = Some ShaderManagerObject, m_loadedTextures = 3,
      m_textureIDs = [\<lparr>tex_tag = ''brick'', tex_ID = 5\<rparr>, \<lparr>tex_tag = ''wood'', tex_ID = 7\<rparr>,
                      \<lparr>tex_tag = ''wood'', tex_ID = 9\<rparr>, blank, blank, blank, blank, blank,
                      blank, blank, blank, blank, blank, blank, blank, blank],
      m_objectMaterials = [whiteMaterial, woodMaterial, woodMaterial\<lparr>shininess := 1\<rparr>],
      statics = initial_camera, calls = []\<rparr>"

text \<open>The state after a fourth texture, tagged wood again, is loaded into it.\<close>

definition second_wood :: SceneManager where
  "second_wood = example_registry\<lparr>
     m_textureIDs := (m_textureIDs example_registry)[3 := \<lparr>tex_tag = ''wood'', tex_ID = 11\<rparr>],
     m_loadedTextures := 4,
     calls := [stbi_set_flip_vertically_on_load True, glGenTextures 11, glBindTexture 11,
               glTexParameteri ''GL_TEXTURE_WRAP_S'' ''GL_REPEAT'',
               glTexParameteri ''GL_TEXTURE_WRAP_T'' ''GL_REPEAT'',
               glTexParameteri ''GL_TEXTURE_MIN_FILTER'' ''GL_LINEAR'',
               glTexParameteri ''GL_TEXTURE_MAG_FILTER'' ''GL_LINEAR'',
               glTexImage2D ''GL_RGB8'' 512 512, glGenerateMipmap, stbi_image_free,
               glBindTexture 0]\<rparr>"

text \<open>All 16 entries of the array in use.\<close>

definition full_registry :: SceneManager where
  "full_registry =
     \<lparr>m_pShaderManager = Some ShaderManagerObject, m_loadedTextures = 16,
      m_textureIDs = map (\<lambda>i. \<lparr>tex_tag = ''t'' @ replicate i CHR ''x'', tex_ID = of_nat i + 1\<rparr>) [0..<16],
      m_objectMaterials = [], statics = initial_camera, calls = []\<rparr>"

text \<open>A freshly constructed manager whose count happens to be zero.\<close>

definition fresh :: SceneManager where
  "fresh = construct (Some ShaderManagerObject) 0 (\<lambda>i. 0)"

text \<open>A window with the cursor at \<open>(x, y)\<close> and no key down, and a frame that has it.\<close>

definition window_at :: "real \<Rightarrow> real \<Rightarrow> GLFWwindow" where
  "window_at x y = \<lparr>cursorPos = (x, y), keyPressed = (\<lambda>k. False)\<rparr>"

definition frame_at :: "real \<Rightarrow> real \<Rightarrow> real \<Rightarrow> frame" where
  "frame_at x y t = \<lparr>glfwGetCurrentContext = Some (window_at x y), glfwGetTime = t\<rparr>"

text \<open>A window with both projection keys, P and O, held down.\<close>

definition both_keys :: GLFWwindow where
  "both_keys = \<lparr>cursorPos = (400, 300), keyPressed = (\<lambda>k. k = GLFW_KEY_P \<or> k = GLFW_KEY_O)\<rparr>"

text \<open>A finite \<^verbatim>\<open>double\<close> beyond the range of \<^verbatim>\<open>float\<close>.\<close>

definition beyond_float :: real where
  "beyond_float = 2 ^ 128"

text \<open>A finite value between two bounds.\<close>

fun in_range :: "real \<Rightarrow> real \<Rightarrow> flt \<Rightarrow> bool" where
  "in_range lo hi (Fin x) = (lo \<le> x \<and> x \<le> hi)"
| "in_range lo hi a = False"

text \<open>A finite value that is a \<^verbatim>\<open>float\<close>: rounding keeps it.\<close>

fun exact :: "flt \<Rightarrow> bool" where
  "exact (Fin x) = (float_round x = Fin x)"
| "exact a = False"

text \<open>A fresh manager whose first frame is over, the cursor last seen at \<open>(400, 300)\<close>.\<close>

definition moved :: SceneManager where
  "moved = fresh\<lparr>statics := initial_camera\<lparr>firstMouse := False\<rparr>\<rparr>"

text \<open>The statics after one frame, when the frame returns.\<close>

definition statics_after :: "frame \<Rightarrow> SceneManager \<Rightarrow> camera option" where
  "statics_after env s = (case RenderScene env s of Inl e \<Rightarrow> None | Inr s' \<Rightarrow> Some (statics s'))"

text \<open>
  The pitch of line 487, before the clamp: the old pitch plus the vertical cursor
  movement times the sensitivity.
\<close>

definition unclamped_pitch :: "GLFWwindow \<Rightarrow> camera \<Rightarrow> flt" where
  "unclamped_pitch window c =
     fadd (pitch c)
       (fmul (fsub (if firstMouse c then static_cast_float (snd (cursorPos window)) else lastY c)
                   (static_cast_float (snd (cursorPos window))))
             (float_round 0.1))"

text \<open>Every cursor reading of the frames converts to a finite \<^verbatim>\<open>float\<close>.\<close>

definition readings_in_range :: "frame list \<Rightarrow> bool" where
  "readings_in_range envs =
     list_all (\<lambda>env. case glfwGetCurrentContext env of
                        None \<Rightarrow> True
                      | Some window \<Rightarrow> is_finite (static_cast_float (fst (cursorPos window)))
                                      \<and> is_finite (static_cast_float (snd (cursorPos window)))) envs"

text \<open>A frame on a thread that has no current context.\<close>

definition no_context :: frame where
  "no_context = \<lparr>glfwGetCurrentContext = None, glfwGetTime = 0\<rparr>"

text \<open>A decoder that finds no image at all.\<close>

definition no_file :: "string \<Rightarrow> image option" where
  "no_file filename = None"

text \<open>The fresh manager after \<open>PrepareScene\<close>, when the wood image loads (handle 1).\<close>

definition built :: SceneManager where
  "built = fresh\<lparr>
     m_loadedTextures := 1,
     m_textureIDs := (m_textureIDs fresh)[0 := \<lparr>tex_tag = ''wood'', tex_ID = 1\<rparr>],
     m_objectMaterials := [woodMaterial, whiteMaterial],
     calls := [LoadPlaneMesh, LoadCylinderMesh, LoadTorusMesh,
               stbi_set_flip_vertically_on_load True, glGenTextures 1, glBindTexture 1,
               glTexParameteri ''GL_TEXTURE_WRAP_S'' ''GL_REPEAT'',
               glTexParameteri ''GL_TEXTURE_WRAP_T'' ''GL_REPEAT'',
               glTexParameteri ''GL_TEXTURE_MIN_FILTER'' ''GL_LINEAR'',
               glTexParameteri ''GL_TEXTURE_MAG_FILTER'' ''GL_LINEAR'',
               glTexImage2D ''GL_RGB8'' 512 512, glGenerateMipmap, stbi_image_free,
               glBindTexture 0, SetUniform ''UVscale'' (Vec2V (8, 4)),
               glActiveTexture 0, glBindTexture 1]\<rparr>"

text \<open>The fresh manager after \<open>PrepareScene\<close>, when the wood image does not load.\<close>

definition built_without_texture :: SceneManager where
  "built_without_texture = fresh\<lparr>
     m_objectMaterials := [woodMaterial, whiteMaterial],
     calls := [LoadPlaneMesh, LoadCylinderMesh, LoadTorusMesh,
               stbi_set_flip_vertically_on_load True,
               SetUniform ''UVscale'' (Vec2V (8, 4))]\<rparr>"

text \<open>The model matrices of the eight objects, in the order of the source.\<close>

definition object_transforms :: "mat4 list" where
  "object_transforms =
     [modelView (20.0, 1.0, 10.0) 0.0 0.0 0.0 (0.0, 0.0, 0.0),
      modelView (0.75, 1.125, 0.75) 0.0 0.0 0.0 (8.0, 0.5625, 0.0),
      modelView (0.375, 0.375, 0.0375) 90.0 0.0 0.0 (8.0, 1.125, 0.0),
      modelView (0.3, 0.3, 0.075) 0.0 0.0 90.0 (8.75, 0.85, 0.0),
      modelView (3.0, 0.2, 2.0) 0.0 15.0 0.0 (- 3.0, 0.2, 1.0),
      modelView (0.1, 2.0, 0.1) 90.0 15.0 0.0 (- 2.8, 0.5, 1.7),
      modelView (3.0, 0.05, 2.0) 0.0 (- 10.0) 0.0 (3.0, 0.075, - 2.0),
      modelView (3.0, 2.0, 1.0) (- 100.0) 0.0 0.0 (3.0, 1.15, - 2.95)]"

section \<open>Facts about the lookups\<close>

lemma texture_at_ok:
  "registry_ok s \<Longrightarrow> 0 \<le> i \<Longrightarrow> i < m_loadedTextures s \<Longrightarrow> texture_at s i = Inr (m_textureIDs s ! nat i)"
  by (auto simp: texture_at_def registry_ok_def)

lemma FindTextureSlot_loop_found_flag:
  "FindTextureSlot_loop s tag (slot, index, True) = Inr slot"
  by (simp add: FindTextureSlot_loop.simps)

lemma FindTextureSlot_loop_absent:
  "registry_ok s \<Longrightarrow> 0 \<le> index \<Longrightarrow>
   (\<forall>i. index \<le> i \<and> i < m_loadedTextures s \<longrightarrow> tex_tag (m_textureIDs s ! nat i) \<noteq> tag) \<Longrightarrow>
   FindTextureSlot_loop s tag (slot, index, False) = Inr slot"
proof (induction "nat (m_loadedTextures s - index)" arbitrary: index)
  case 0
  then show ?case by (simp add: FindTextureSlot_loop.simps)
next
  case (Suc d)
  then have lt: "index < m_loadedTextures s" by linarith
  have d: "d = nat (m_loadedTextures s - (index + 1))" using Suc.hyps(2) by linarith
  have rest: "FindTextureSlot_loop s tag (slot, index + 1, False) = Inr slot"
    using Suc.hyps(1)[OF d Suc.prems(1)] Suc.prems by simp
  have here: "tex_tag (m_textureIDs s ! nat index) \<noteq> tag" using Suc.prems lt by simp
  show ?case
    using lt here rest texture_at_ok[OF Suc.prems(1) Suc.prems(2) lt] by (simp add: FindTextureSlot_loop.simps)
qed

lemma FindTextureSlot_loop_first:
  "registry_ok s \<Longrightarrow> 0 \<le> index \<Longrightarrow> index \<le> k \<Longrightarrow> k < m_loadedTextures s \<Longrightarrow>
   tex_tag (m_textureIDs s ! nat k) = tag \<Longrightarrow>
   (\<forall>i. index \<le> i \<and> i < k \<longrightarrow> tex_tag (m_textureIDs s ! nat i) \<noteq> tag) \<Longrightarrow>
   FindTextureSlot_loop s tag (slot, index, False) = Inr k"
proof (induction "nat (k - index)" arbitrary: index)
  case 0
  then have "index = k" by simp
  then show ?case
    using 0 texture_at_ok[of s k] by (simp add: FindTextureSlot_loop.simps)
next
  case (Suc d)
  then have lt: "index < k" by linarith
  have d: "d = nat (k - (index + 1))" using Suc.hyps(2) by linarith
  have rest: "FindTextureSlot_loop s tag (slot, index + 1, False) = Inr k"
    using Suc.hyps(1)[OF d Suc.prems(1)] Suc.prems lt by simp
  have here: "tex_tag (m_textureIDs s ! nat index) \<noteq> tag" using Suc.prems lt by simp
  have lt': "index < m_loadedTextures s" using lt Suc.prems by linarith
  show ?case
    using lt' here rest texture_at_ok[OF Suc.prems(1) Suc.prems(2) lt'] by (simp add: FindTextureSlot_loop.simps)
qed

lemma FindTextureID_loop_absent:
  "registry_ok s \<Longrightarrow> 0 \<le> index \<Longrightarrow>
   (\<forall>i. index \<le> i \<and> i < m_loadedTextures s \<longrightarrow> tex_tag (m_textureIDs s ! nat i) \<noteq> tag) \<Longrightarrow>
   FindTextureID_loop s tag (tid, index, False) = Inr tid"
proof (induction "nat (m_loadedTextures s - index)" arbitrary: index)
  case 0
  then show ?case by (simp add: FindTextureID_loop.simps)
next
  case (Suc d)
  then have lt: "index < m_loadedTextures s" by linarith
  have d: "d = nat (m_loadedTextures s - (index + 1))" using Suc.hyps(2) by linarith
  have rest: "FindTextureID_loop s tag (tid, index + 1, False) = Inr tid"
    using Suc.hyps(1)[OF d Suc.prems(1)] Suc.prems by simp
  have here: "tex_tag (m_textureIDs s ! nat index) \<noteq> tag" using Suc.prems lt by simp
  show ?case
    using lt here rest texture_at_ok[OF Suc.prems(1) Suc.prems(2) lt] by (simp add: FindTextureID_loop.simps)
qed

lemma FindTextureID_loop_first:
  "registry_ok s \<Longrightarrow> 0 \<le> index \<Longrightarrow> index \<le> k \<Longrightarrow> k < m_loadedTextures s \<Longrightarrow>
   tex_tag (m_textureIDs s ! nat k) = tag \<Longrightarrow>
   (\<forall>i. index \<le> i \<and> i < k \<longrightarrow> tex_tag (m_textureIDs s ! nat i) \<noteq> tag) \<Longrightarrow>
   FindTextureID_loop s tag (tid, index, False) = Inr (sint (tex_ID (m_textureIDs s ! nat k)))"
proof (induction "nat (k - index)" arbitrary: index)
  case 0
  then have "index = k" by simp
  then show ?case
    using 0 texture_at_ok[of s k] by (simp add: FindTextureID_loop.simps)
next
  case (Suc d)
  then have lt: "index < k" by linarith
  have d: "d = nat (k - (index + 1))" using Suc.hyps(2) by linarith
  have rest: "FindTextureID_loop s tag (tid, index + 1, False) = Inr (sint (tex_ID (m_textureIDs s ! nat k)))"
    using Suc.hyps(1)[OF d Suc.prems(1)] Suc.prems lt by simp
  have here: "tex_tag (m_textureIDs s ! nat index) \<noteq> tag" using Suc.prems lt by simp
  have lt': "index < m_loadedTextures s" using lt Suc.prems by linarith
  show ?case
    using lt' here rest texture_at_ok[OF Suc.prems(1) Suc.prems(2) lt'] by (simp add: FindTextureID_loop.simps)
qed

lemma FindMaterial_loop_absent:
  "(\<forall>i. index \<le> i \<and> i < length (m_objectMaterials s) \<longrightarrow> mat_tag (m_objectMaterials s ! i) \<noteq> tag) \<Longrightarrow>
   FindMaterial_loop s tag (index, False, material) = (False, material)"
proof (induction "length (m_objectMaterials s) - index" arbitrary: index)
  case 0
  then show ?case by (simp add: FindMaterial_loop.simps)
next
  case (Suc d)
  then have lt: "index < length (m_objectMaterials s)" by linarith
  have d: "d = length (m_objectMaterials s) - (index + 1)" using Suc.hyps(2) by linarith
  have rest: "FindMaterial_loop s tag (index + 1, False, material) = (False, material)"
    using Suc.hyps(1)[OF d] Suc.prems by simp
  have here: "mat_tag (m_objectMaterials s ! index) \<noteq> tag" using Suc.prems lt by simp
  show ?case using lt here rest by (simp add: FindMaterial_loop.simps)
qed

lemma FindMaterial_loop_first:
  "index \<le> k \<Longrightarrow> k < length (m_objectMaterials s) \<Longrightarrow>
   mat_tag (m_objectMaterials s ! k) = tag \<Longrightarrow>
   (\<forall>i. index \<le> i \<and> i < k \<longrightarrow> mat_tag (m_objectMaterials s ! i) \<noteq> tag) \<Longrightarrow>
   FindMaterial_loop s tag (index, False, material) = (True, m_objectMaterials s ! k)"
proof (induction "k - index" arbitrary: index)
  case 0
  then have "index = k" by simp
  then show ?case using 0 by (simp add: FindMaterial_loop.simps)
next
  case (Suc d)
  then have lt: "index < k" by linarith
  have d: "d = k - (index + 1)" using Suc.hyps(2) by linarith
  have rest: "FindMaterial_loop s tag (index + 1, False, material) = (True, m_objectMaterials s ! k)"
    using Suc.hyps(1)[OF d] Suc.prems lt by simp
  have here: "mat_tag (m_objectMaterials s ! index) \<noteq> tag" using Suc.prems lt by simp
  have lt': "index < length (m_objectMaterials s)" using lt Suc.prems by linarith
  show ?case using lt' here rest by (simp add: FindMaterial_loop.simps)
qed

lemma registered_length: "registry_ok s \<Longrightarrow> length (registered s) = nat (m_loadedTextures s)"
  by (auto simp: registered_def registry_ok_def)

lemma registered_nth: "i < nat (m_loadedTextures s) \<Longrightarrow> registered s ! i = m_textureIDs s ! i"
  by (simp add: registered_def)

lemma FindTextureSlot_absent:
  assumes "registry_ok s" "tag \<notin> tex_tag ` set (registered s)"
  shows "FindTextureSlot s tag = Inr (- 1)"
proof -
  have "tex_tag (m_textureIDs s ! nat i) \<noteq> tag" if "0 \<le> i \<and> i < m_loadedTextures s" for i
  proof -
    have "nat i < length (registered s)" using that assms(1) by (simp add: registered_length)
    then have "registered s ! nat i \<in> set (registered s)" by simp
    then show ?thesis using assms(2) that by (auto simp: registered_nth)
  qed
  then show ?thesis
    unfolding FindTextureSlot_def using assms(1) by (intro FindTextureSlot_loop_absent) auto
qed

lemma FindTextureSlot_first:
  assumes "registry_ok s" "k < length (registered s)" "tex_tag (registered s ! k) = tag"
    "\<forall>i<k. tex_tag (registered s ! i) \<noteq> tag"
  shows "FindTextureSlot s tag = Inr (int k)"
proof -
  have k: "k < nat (m_loadedTextures s)" using assms(1,2) by (simp add: registered_length)
  have "tex_tag (m_textureIDs s ! nat i) \<noteq> tag" if "0 \<le> i \<and> i < int k" for i
  proof -
    have "nat i < k" using that by linarith
    then show ?thesis using assms(4) k by (auto simp: registered_nth)
  qed
  moreover have "tex_tag (m_textureIDs s ! nat (int k)) = tag"
    using assms(3) k by (simp add: registered_nth)
  ultimately show ?thesis
    unfolding FindTextureSlot_def using assms(1) k
    by (intro FindTextureSlot_loop_first) auto
qed

lemma FindTextureID_absent:
  assumes "registry_ok s" "tag \<notin> tex_tag ` set (registered s)"
  shows "FindTextureID s tag = Inr (- 1)"
proof -
  have "tex_tag (m_textureIDs s ! nat i) \<noteq> tag" if "0 \<le> i \<and> i < m_loadedTextures s" for i
  proof -
    have "nat i < length (registered s)" using that assms(1) by (simp add: registered_length)
    then have "registered s ! nat i \<in> set (registered s)" by simp
    then show ?thesis using assms(2) that by (auto simp: registered_nth)
  qed
  then show ?thesis
    unfolding FindTextureID_def using assms(1) by (intro FindTextureID_loop_absent) auto
qed

lemma FindTextureID_first:
  assumes "registry_ok s" "k < length (registered s)" "tex_tag (registered s ! k) = tag"
    "\<forall>i<k. tex_tag (registered s ! i) \<noteq> tag"
  shows "FindTextureID s tag = Inr (sint (tex_ID (registered s ! k)))"
proof -
  have k: "k < nat (m_loadedTextures s)" using assms(1,2) by (simp add: registered_length)
  have "tex_tag (m_textureIDs s ! nat i) \<noteq> tag" if "0 \<le> i \<and> i < int k" for i
  proof -
    have "nat i < k" using that by linarith
    then show ?thesis using assms(4) k by (auto simp: registered_nth)
  qed
  moreover have "tex_tag (m_textureIDs s ! nat (int k)) = tag"
    using assms(3) k by (simp add: registered_nth)
  ultimately have "FindTextureID_loop s tag (- 1, 0, False) = Inr (sint (tex_ID (m_textureIDs s ! nat (int k))))"
    using assms(1) k by (intro FindTextureID_loop_first) auto
  then show ?thesis using k by (simp add: FindTextureID_def registered_nth)
qed

lemma FindMaterial_absent:
  assumes "tag \<notin> mat_tag ` set (m_objectMaterials s)"
  shows "FindMaterial s tag material = (False, material)"
proof -
  have "mat_tag (m_objectMaterials s ! i) \<noteq> tag" if "i < length (m_objectMaterials s)" for i
    using assms that by (metis image_eqI nth_mem)
  then show ?thesis by (simp add: FindMaterial_def FindMaterial_loop_absent)
qed

lemma FindMaterial_first:
  assumes "k < length (m_objectMaterials s)" "mat_tag (m_objectMaterials s ! k) = tag"
    "\<forall>i<k. mat_tag (m_objectMaterials s ! i) \<noteq> tag"
  shows "FindMaterial s tag material = (True, m_objectMaterials s ! k)"
proof -
  have "m_objectMaterials s \<noteq> []" using assms(1) by auto
  moreover have "FindMaterial_loop s tag (0, False, material) = (True, m_objectMaterials s ! k)"
    using assms by (intro FindMaterial_loop_first) auto
  ultimately show ?thesis by (simp add: FindMaterial_def)
qed

text \<open>Among the entries carrying a tag there is a first one.\<close>

lemma first_occurrence:
  assumes "x \<in> f ` set xs"
  shows "\<exists>k<length xs. f (xs ! k) = x \<and> (\<forall>i<k. f (xs ! i) \<noteq> x)"
proof -
  obtain j where j: "j < length xs" "f (xs ! j) = x"
    using assms by (auto simp: in_set_conv_nth)
  define k where "k = (LEAST i. i < length xs \<and> f (xs ! i) = x)"
  have "k < length xs \<and> f (xs ! k) = x"
    unfolding k_def by (rule LeastI[of "\<lambda>i. i < length xs \<and> f (xs ! i) = x" j]) (simp add: j)
  moreover have "f (xs ! i) \<noteq> x" if "i < k" for i
  proof
    assume "f (xs ! i) = x"
    moreover have "i < length xs" using that \<open>k < length xs \<and> f (xs ! k) = x\<close> by simp
    ultimately have "k \<le> i" unfolding k_def by (intro Least_le) simp
    then show False using that by simp
  qed
  ultimately show ?thesis by blast
qed

lemma FindTextureSlot_returns:
  assumes "registry_ok s"
  shows "\<exists>slot. FindTextureSlot s tag = Inr slot"
proof (cases "tag \<in> tex_tag ` set (registered s)")
  case True
  then obtain k where "k < length (registered s)" "tex_tag (registered s ! k) = tag"
    "\<forall>i<k. tex_tag (registered s ! i) \<noteq> tag"
    using first_occurrence[of tag tex_tag "registered s"] by blast
  then show ?thesis using FindTextureSlot_first[OF assms] by blast
next
  case False
  then show ?thesis using FindTextureSlot_absent[OF assms] by blast
qed

section \<open>Facts about the example states\<close>

lemma example_registered:
  "registered example_registry = [\<lparr>tex_tag = ''brick'', tex_ID = 5\<rparr>, \<lparr>tex_tag = ''wood'', tex_ID = 7\<rparr>,
                              \<lparr>tex_tag = ''wood'', tex_ID = 9\<rparr>]"
  by (simp add: registered_def example_registry_def)

lemma example_registry_ok: "registry_ok example_registry"
  by (simp add: registry_ok_def example_registry_def)

section \<open>Lookup by tag\<close>

text \<open>
  Claim C5. With the registry intact, a tag carried by no registered texture makes
  \<open>FindTextureSlot\<close> return the not-found value \<open>-1\<close>, and a tag carried by no
  material makes \<open>FindMaterial\<close> return false and leave the caller's material as it
  was. When entries carry the tag, whether one or several, both lookups return the first
  of them in insertion order: the slot index of the first texture entry with the tag,
  and the first material with the tag.
\<close>

theorem lookup_first_match:
  assumes "registry_ok s"
  shows "(tag \<notin> tex_tag ` set (registered s) \<longrightarrow> FindTextureSlot s tag = Inr (- 1))
       \<and> (tag \<notin> mat_tag ` set (m_objectMaterials s) \<longrightarrow>
            FindMaterial s tag material = (False, material))
       \<and> (k < length (registered s) \<and> tex_tag (registered s ! k) = tag
            \<and> (\<forall>i<k. tex_tag (registered s ! i) \<noteq> tag) \<longrightarrow>
            FindTextureSlot s tag = Inr (int k))
       \<and> (j < length (m_objectMaterials s) \<and> mat_tag (m_objectMaterials s ! j) = tag
            \<and> (\<forall>i<j. mat_tag (m_objectMaterials s ! i) \<noteq> tag) \<longrightarrow>
            FindMaterial s tag material = (True, m_objectMaterials s ! j))"
proof (intro conjI impI)
  show "FindTextureSlot s tag = Inr (- 1)" if "tag \<notin> tex_tag ` set (registered s)"
    using that by (rule FindTextureSlot_absent[OF assms])
  show "FindMaterial s tag material = (False, material)"
    if "tag \<notin> mat_tag ` set (m_objectMaterials s)"
    using that by (rule FindMaterial_absent)
  show "FindTextureSlot s tag = Inr (int k)"
    if "k < length (registered s) \<and> tex_tag (registered s ! k) = tag
          \<and> (\<forall>i<k. tex_tag (registered s ! i) \<noteq> tag)"
    using that FindTextureSlot_first[OF assms, of k tag] by blast
  show "FindMaterial s tag material = (True, m_objectMaterials s ! j)"
    if "j < length (m_objectMaterials s) \<and> mat_tag (m_objectMaterials s ! j) = tag
          \<and> (\<forall>i<j. mat_tag (m_objectMaterials s ! i) \<noteq> tag)"
    using that FindMaterial_first[of j s tag material] by blast
qed

theorem lookup_first_match_witness:
  "FindTextureSlot example_registry ''stone'' = Inr (- 1)
   \<and> FindMaterial example_registry ''stone'' unwritten_material = (False, unwritten_material)
   \<and> FindTextureSlot example_registry ''wood'' = Inr 1
   \<and> FindMaterial example_registry ''woodMaterial'' unwritten_material = (True, woodMaterial)"
proof -
  have a: "''stone'' \<notin> tex_tag ` set (registered example_registry)"
    by (simp add: example_registered)
  have b: "''stone'' \<notin> mat_tag ` set (m_objectMaterials example_registry)"
    by (simp add: example_registry_def woodMaterial_def whiteMaterial_def)
  have c: "(1::nat) < length (registered example_registry)
      \<and> tex_tag (registered example_registry ! 1) = ''wood''
      \<and> (\<forall>i<1. tex_tag (registered example_registry ! i) \<noteq> ''wood'')"
    by (simp add: example_registered)
  have d: "(1::nat) < length (m_objectMaterials example_registry)
      \<and> mat_tag (m_objectMaterials example_registry ! 1) = ''woodMaterial''
      \<and> (\<forall>i<1. mat_tag (m_objectMaterials example_registry ! i) \<noteq> ''woodMaterial'')"
    by (simp add: example_registry_def woodMaterial_def whiteMaterial_def)
  have e: "m_objectMaterials example_registry ! 1 = woodMaterial"
    by (simp add: example_registry_def)
  show ?thesis
    using lookup_first_match[OF example_registry_ok, where tag = "''stone''" and material = unwritten_material]
      lookup_first_match[OF example_registry_ok, where tag = "''wood''" and k = 1]
      lookup_first_match[OF example_registry_ok, where tag = "''woodMaterial''" and j = 1
        and material = unwritten_material]
      a b c d e
    by simp
qed

section \<open>The model matrix\<close>

lemma mat4_mul_vec4_assoc:
  "mat4_mul_vec4 (mat4_mul a b) v = mat4_mul_vec4 a (mat4_mul_vec4 b v)"
proof -
  obtain a0 a1 a2 a3 where a: "a = (a0, a1, a2, a3)" by (cases a) auto
  obtain b0 b1 b2 b3 where b: "b = (b0, b1, b2, b3)" by (cases b) auto
  obtain x y z w where v: "v = (x, y, z, w)" by (cases v) auto
  obtain a00 a01 a02 a03 where a0: "a0 = (a00, a01, a02, a03)" by (cases a0) auto
  obtain a10 a11 a12 a13 where a1: "a1 = (a10, a11, a12, a13)" by (cases a1) auto
  obtain a20 a21 a22 a23 where a2: "a2 = (a20, a21, a22, a23)" by (cases a2) auto
  obtain a30 a31 a32 a33 where a3: "a3 = (a30, a31, a32, a33)" by (cases a3) auto
  obtain b00 b01 b02 b03 where b0: "b0 = (b00, b01, b02, b03)" by (cases b0) auto
  obtain b10 b11 b12 b13 where b1: "b1 = (b10, b11, b12, b13)" by (cases b1) auto
  obtain b20 b21 b22 b23 where b2: "b2 = (b20, b21, b22, b23)" by (cases b2) auto
  obtain b30 b31 b32 b33 where b3: "b3 = (b30, b31, b32, b33)" by (cases b3) auto
  show ?thesis
    unfolding a b v a0 a1 a2 a3 b0 b1 b2 b3
    by (simp add: algebra_simps)
qed

lemma rotate_zero_x: "glm_rotate (glm_radians 0) (1, 0, 0) = ((1,0,0,0),(0,1,0,0),(0,0,1,0),(0,0,0,1))"
  by (simp add: glm_rotate_def glm_radians_def glm_normalize_def)

lemma rotate_zero_y: "glm_rotate (glm_radians 0) (0, 1, 0) = ((1,0,0,0),(0,1,0,0),(0,0,1,0),(0,0,0,1))"
  by (simp add: glm_rotate_def glm_radians_def glm_normalize_def)

lemma rotate_zero_z: "glm_rotate (glm_radians 0) (0, 0, 1) = ((1,0,0,0),(0,1,0,0),(0,0,1,0),(0,0,0,1))"
  by (simp add: glm_rotate_def glm_radians_def glm_normalize_def)

text \<open>
  Claim C1. \<open>SetTransformations\<close> pushes as the model matrix the product
  translation \<open>\<cdot>\<close> rotationX \<open>\<cdot>\<close> rotationY \<open>\<cdot>\<close> rotationZ \<open>\<cdot>\<close> scale, in that order
  (when there is a shader manager to push it to). Applied to a point, the product
  scales first, then rotates about Z, Y and X, then translates. With scale \<open>(2,1,1)\<close>,
  no rotation and position \<open>(5,0,0)\<close> the origin goes to \<open>(5,0,0)\<close> and the point
  \<open>(1,0,0)\<close> to \<open>(7,0,0)\<close>. Points are in homogeneous coordinates, \<open>w = 1\<close>.
\<close>

theorem model_matrix_order:
  "calls (SetTransformations scaleXYZ rx ry rz positionXYZ s) =
     (if m_pShaderManager s \<noteq> None
      then calls s @ [SetUniform ''model'' (Mat4V
             (mat4_mul (mat4_mul (mat4_mul (mat4_mul (glm_translate positionXYZ)
                (glm_rotate (glm_radians rx) (1, 0, 0)))
                (glm_rotate (glm_radians ry) (0, 1, 0)))
                (glm_rotate (glm_radians rz) (0, 0, 1)))
                (glm_scale scaleXYZ)))]
      else calls s)
   \<and> mat4_mul_vec4 (modelView scaleXYZ rx ry rz positionXYZ) p =
       mat4_mul_vec4 (glm_translate positionXYZ)
         (mat4_mul_vec4 (glm_rotate (glm_radians rx) (1, 0, 0))
           (mat4_mul_vec4 (glm_rotate (glm_radians ry) (0, 1, 0))
             (mat4_mul_vec4 (glm_rotate (glm_radians rz) (0, 0, 1))
               (mat4_mul_vec4 (glm_scale scaleXYZ) p))))
   \<and> mat4_mul_vec4 (modelView (2, 1, 1) 0 0 0 (5, 0, 0)) (0, 0, 0, 1) = (5, 0, 0, 1)
   \<and> mat4_mul_vec4 (modelView (2, 1, 1) 0 0 0 (5, 0, 0)) (1, 0, 0, 1) = (7, 0, 0, 1)"
proof (intro conjI)
  show "calls (SetTransformations scaleXYZ rx ry rz positionXYZ s) =
     (if m_pShaderManager s \<noteq> None
      then calls s @ [SetUniform ''model'' (Mat4V
             (mat4_mul (mat4_mul (mat4_mul (mat4_mul (glm_translate positionXYZ)
                (glm_rotate (glm_radians rx) (1, 0, 0)))
                (glm_rotate (glm_radians ry) (0, 1, 0)))
                (glm_rotate (glm_radians rz) (0, 0, 1)))
                (glm_scale scaleXYZ)))]
      else calls s)"
    by (simp add: SetTransformations_def modelView_def emit_def Let_def)
  show "mat4_mul_vec4 (modelView scaleXYZ rx ry rz positionXYZ) p =
       mat4_mul_vec4 (glm_translate positionXYZ)
         (mat4_mul_vec4 (glm_rotate (glm_radians rx) (1, 0, 0))
           (mat4_mul_vec4 (glm_rotate (glm_radians ry) (0, 1, 0))
             (mat4_mul_vec4 (glm_rotate (glm_radians rz) (0, 0, 1))
               (mat4_mul_vec4 (glm_scale scaleXYZ) p))))"
    by (simp only: modelView_def Let_def mat4_mul_vec4_assoc)
  have m: "modelView (2, 1, 1) 0 0 0 (5, 0, 0) = ((2,0,0,0),(0,1,0,0),(0,0,1,0),(5,0,0,1))"
    by (simp add: modelView_def Let_def rotate_zero_x rotate_zero_y rotate_zero_z
        glm_translate_def glm_scale_def)
  show "mat4_mul_vec4 (modelView (2, 1, 1) 0 0 0 (5, 0, 0)) (0, 0, 0, 1) = (5, 0, 0, 1)"
    by (simp add: m)
  show "mat4_mul_vec4 (modelView (2, 1, 1) 0 0 0 (5, 0, 0)) (1, 0, 0, 1) = (7, 0, 0, 1)"
    by (simp add: m)
qed

section \<open>Loading a texture\<close>

lemma CreateGLTexture_supported:
  assumes "stbi_load filename = Some img" "colorChannels img = 3 \<or> colorChannels img = 4"
    "0 \<le> m_loadedTextures s" "m_loadedTextures s < 16" "length (m_textureIDs s) = 16"
  shows "\<exists>s'. CreateGLTexture stbi_load tid filename tag s = Inr (True, s')
     \<and> s' = s\<lparr>m_textureIDs := (m_textureIDs s)[nat (m_loadedTextures s) :=
                       \<lparr>tex_tag = tag, tex_ID = tid\<rparr>],
                m_loadedTextures := m_loadedTextures s + 1, calls := calls s'\<rparr>"
proof -
  have n: "nat (m_loadedTextures s) < 16" using assms by simp
  show ?thesis
    using assms(2)
  proof
    assume "colorChannels img = 3"
    then show ?thesis using assms n by (simp add: CreateGLTexture_def Let_def emit_def)
  next
    assume "colorChannels img = 4"
    then show ?thesis using assms n by (simp add: CreateGLTexture_def Let_def emit_def)
  qed
qed

lemma CreateGLTexture_unsupported:
  assumes "stbi_load filename = Some img" "colorChannels img \<noteq> 3" "colorChannels img \<noteq> 4"
  shows "\<exists>s'. CreateGLTexture stbi_load tid filename tag s = Inr (False, s')
           \<and> s' = s\<lparr>calls := calls s'\<rparr>"
  using assms by (simp add: CreateGLTexture_def Let_def emit_def)

lemma CreateGLTexture_undecodable:
  assumes "stbi_load filename = None"
  shows "CreateGLTexture stbi_load tid filename tag s =
           Inr (False, s\<lparr>calls := calls s @ [stbi_set_flip_vertically_on_load True]\<rparr>)"
  using assms by (simp add: CreateGLTexture_def Let_def emit_def)

lemma CreateGLTexture_overrun:
  assumes "stbi_load filename = Some img" "colorChannels img = 3 \<or> colorChannels img = 4"
    "m_loadedTextures s < 0 \<or> 16 \<le> m_loadedTextures s"
  shows "CreateGLTexture stbi_load tid filename tag s = Inl WritePastArray"
proof -
  have n: "\<not> (0 \<le> m_loadedTextures s \<and> m_loadedTextures s < 16)" using assms(3) by linarith
  show ?thesis
    using assms(2)
  proof
    assume "colorChannels img = 3"
    then show ?thesis using assms(1) n by (auto simp: CreateGLTexture_def Let_def emit_def)
  next
    assume "colorChannels img = 4"
    then show ?thesis using assms(1) n by (auto simp: CreateGLTexture_def Let_def emit_def)
  qed
qed

lemma registered_after_store:
  assumes "0 \<le> m_loadedTextures s" "m_loadedTextures s < 16" "length (m_textureIDs s) = 16"
  shows "registered (s\<lparr>m_textureIDs := (m_textureIDs s)[nat (m_loadedTextures s) := e],
                        m_loadedTextures := m_loadedTextures s + 1, calls := cs\<rparr>)
         = registered s @ [e]"
proof -
  have n: "nat (m_loadedTextures s) < length (m_textureIDs s)" using assms by simp
  have "nat (m_loadedTextures s + 1) = Suc (nat (m_loadedTextures s))" using assms by simp
  then show ?thesis
    using n by (simp add: registered_def take_Suc_conv_app_nth)
qed

lemma registry_ok_after_store:
  assumes "m_loadedTextures s < 16" "length (m_textureIDs s) = 16"
  shows "registry_ok (s\<lparr>m_textureIDs := (m_textureIDs s)[i := e],
                        m_loadedTextures := m_loadedTextures s + 1, calls := cs\<rparr>)"
  using assms by (simp add: registry_ok_def)

lemma example_load_wood:
  "example_load ''Debug/wood.jpg'' = Some \<lparr>width = 512, height = 512, colorChannels = 3\<rparr>"
  by (simp add: example_load_def)

lemma example_registry_fields:
  "m_loadedTextures example_registry = 3" "length (m_textureIDs example_registry) = 16"
  by (simp_all add: example_registry_def)

lemma second_wood_registered:
  "registered second_wood = [\<lparr>tex_tag = ''brick'', tex_ID = 5\<rparr>, \<lparr>tex_tag = ''wood'', tex_ID = 7\<rparr>,
      \<lparr>tex_tag = ''wood'', tex_ID = 9\<rparr>, \<lparr>tex_tag = ''wood'', tex_ID = 11\<rparr>]"
  by (simp add: registered_def second_wood_def example_registry_def)

lemma second_wood_ok: "registry_ok second_wood"
  by (simp add: registry_ok_def second_wood_def example_registry_def)

lemma full_registry_count: "m_loadedTextures full_registry = 16"
  by (simp add: full_registry_def)

text \<open>
  Claim C2, as the code has it. For an image that decodes:
  with a channel count other than 3 and 4, \<open>CreateGLTexture\<close> returns false and
  leaves the count and the entry array as they were;
  with 3 or 4 channels and fewer than 16 textures loaded, it returns true, stores the
  entry \<open>{tag, handle}\<close> at the index of the old count and adds one to the count.
  Afterwards \<open>FindTextureSlot\<close> and \<open>FindTextureID\<close> with that tag return the new
  index and the new handle (read as a signed 32-bit integer) when no entry registered
  before carries the tag; when one does, they return what they returned before the
  load, the first-registered entry.
\<close>

theorem CreateGLTexture_registers:
  assumes "stbi_load filename = Some img"
  shows "(colorChannels img \<noteq> 3 \<and> colorChannels img \<noteq> 4 \<longrightarrow>
            (\<exists>s'. CreateGLTexture stbi_load tid filename tag s = Inr (False, s')
               \<and> m_loadedTextures s' = m_loadedTextures s \<and> m_textureIDs s' = m_textureIDs s))
       \<and> ((colorChannels img = 3 \<or> colorChannels img = 4)
            \<and> 0 \<le> m_loadedTextures s \<and> m_loadedTextures s < 16 \<and> length (m_textureIDs s) = 16 \<longrightarrow>
            (\<exists>s'. CreateGLTexture stbi_load tid filename tag s = Inr (True, s')
               \<and> m_loadedTextures s' = m_loadedTextures s + 1
               \<and> registered s' = registered s @ [\<lparr>tex_tag = tag, tex_ID = tid\<rparr>]
               \<and> (if tag \<in> tex_tag ` set (registered s)
                   then FindTextureSlot s' tag = FindTextureSlot s tag
                      \<and> FindTextureID s' tag = FindTextureID s tag
                   else FindTextureSlot s' tag = Inr (m_loadedTextures s)
                      \<and> FindTextureID s' tag = Inr (sint tid))))"
proof (intro conjI impI)
  assume "colorChannels img \<noteq> 3 \<and> colorChannels img \<noteq> 4"
  then obtain s1 where "CreateGLTexture stbi_load tid filename tag s = Inr (False, s1)"
      "s1 = s\<lparr>calls := calls s1\<rparr>"
    using CreateGLTexture_unsupported[where stbi_load = stbi_load and filename = filename, OF assms]
    by blast
  then have "CreateGLTexture stbi_load tid filename tag s = Inr (False, s1)
      \<and> m_loadedTextures s1 = m_loadedTextures s \<and> m_textureIDs s1 = m_textureIDs s"
    by (metis SceneManager.select_convs(2,3) SceneManager.surjective SceneManager.update_convs(6))
  then show "\<exists>s'. CreateGLTexture stbi_load tid filename tag s = Inr (False, s')
               \<and> m_loadedTextures s' = m_loadedTextures s \<and> m_textureIDs s' = m_textureIDs s"
    by blast
next
  assume h: "(colorChannels img = 3 \<or> colorChannels img = 4)
            \<and> 0 \<le> m_loadedTextures s \<and> m_loadedTextures s < 16 \<and> length (m_textureIDs s) = 16"
  define e where "e = \<lparr>tex_tag = tag, tex_ID = tid\<rparr>"
  obtain s1 where r0: "CreateGLTexture stbi_load tid filename tag s = Inr (True, s1)"
      "s1 = s\<lparr>m_textureIDs := (m_textureIDs s)[nat (m_loadedTextures s) := e],
                   m_loadedTextures := m_loadedTextures s + 1, calls := calls s1\<rparr>"
    using CreateGLTexture_supported[where stbi_load = stbi_load and filename = filename,
        OF assms, of s tid tag] h unfolding e_def by blast
  define cs where "cs = calls s1"
  have r: "CreateGLTexture stbi_load tid filename tag s =
     Inr (True, s\<lparr>m_textureIDs := (m_textureIDs s)[nat (m_loadedTextures s) := e],
                   m_loadedTextures := m_loadedTextures s + 1, calls := cs\<rparr>)"
    using r0 by (simp add: cs_def)
  define s' where "s' = s\<lparr>m_textureIDs := (m_textureIDs s)[nat (m_loadedTextures s) := e],
                   m_loadedTextures := m_loadedTextures s + 1, calls := cs\<rparr>"
  have ok: "registry_ok s" using h by (simp add: registry_ok_def)
  have ok': "registry_ok s'" unfolding s'_def using h by (intro registry_ok_after_store) auto
  have reg: "registered s' = registered s @ [e]"
    unfolding s'_def using h by (intro registered_after_store) auto
  have len: "length (registered s) = nat (m_loadedTextures s)"
    using ok by (rule registered_length)
  have lookups: "if tag \<in> tex_tag ` set (registered s)
                 then FindTextureSlot s' tag = FindTextureSlot s tag
                    \<and> FindTextureID s' tag = FindTextureID s tag
                 else FindTextureSlot s' tag = Inr (m_loadedTextures s)
                    \<and> FindTextureID s' tag = Inr (sint tid)"
  proof (cases "tag \<in> tex_tag ` set (registered s)")
    case True
    then obtain k where k: "k < length (registered s)" "tex_tag (registered s ! k) = tag"
        "\<forall>i<k. tex_tag (registered s ! i) \<noteq> tag"
      using first_occurrence[of tag tex_tag "registered s"] by blast
    have k': "k < length (registered s')" "tex_tag (registered s' ! k) = tag"
        "\<forall>i<k. tex_tag (registered s' ! i) \<noteq> tag"
      using k by (auto simp: reg nth_append)
    have "registered s' ! k = registered s ! k" using k by (simp add: reg nth_append)
    then show ?thesis
      using True FindTextureSlot_first[OF ok k] FindTextureSlot_first[OF ok' k']
        FindTextureID_first[OF ok k] FindTextureID_first[OF ok' k'] by simp
  next
    case False
    define n where "n = length (registered s)"
    have a: "n < length (registered s')" by (simp add: reg n_def)
    have b: "tex_tag (registered s' ! n) = tag" by (simp add: reg n_def e_def)
    have c: "\<forall>i<n. tex_tag (registered s' ! i) \<noteq> tag"
      using False by (auto simp: reg n_def nth_append)
    have d: "registered s' ! n = e" by (simp add: reg n_def)
    have "int n = m_loadedTextures s" using len h by (simp add: n_def)
    then show ?thesis
      using False FindTextureSlot_first[OF ok' a b c] FindTextureID_first[OF ok' a b c] d
      by (simp add: e_def)
  qed
  show "\<exists>s'. CreateGLTexture stbi_load tid filename tag s = Inr (True, s')
               \<and> m_loadedTextures s' = m_loadedTextures s + 1
               \<and> registered s' = registered s @ [\<lparr>tex_tag = tag, tex_ID = tid\<rparr>]
               \<and> (if tag \<in> tex_tag ` set (registered s)
                   then FindTextureSlot s' tag = FindTextureSlot s tag
                      \<and> FindTextureID s' tag = FindTextureID s tag
                   else FindTextureSlot s' tag = Inr (m_loadedTextures s)
                      \<and> FindTextureID s' tag = Inr (sint tid))"
  proof (intro exI conjI)
    show "CreateGLTexture stbi_load tid filename tag s = Inr (True, s')" using r by (simp add: s'_def)
    show "m_loadedTextures s' = m_loadedTextures s + 1" by (simp add: s'_def)
    show "registered s' = registered s @ [\<lparr>tex_tag = tag, tex_ID = tid\<rparr>]" using reg by (simp add: e_def)
    show "if tag \<in> tex_tag ` set (registered s)
                   then FindTextureSlot s' tag = FindTextureSlot s tag
                      \<and> FindTextureID s' tag = FindTextureID s tag
                   else FindTextureSlot s' tag = Inr (m_loadedTextures s)
                      \<and> FindTextureID s' tag = Inr (sint tid)" by (rule lookups)
  qed
qed

text \<open>An instance: a greyscale image is refused, an RGB image under a new tag is found again.\<close>

theorem CreateGLTexture_registers_witness:
  "(\<exists>s'. CreateGLTexture grey_load 11 ''Debug/wood.jpg'' ''stone'' example_registry = Inr (False, s')
         \<and> m_loadedTextures s' = 3 \<and> m_textureIDs s' = m_textureIDs example_registry)
   \<and> (\<exists>s'. CreateGLTexture example_load 11 ''Debug/wood.jpg'' ''stone'' example_registry = Inr (True, s')
         \<and> m_loadedTextures s' = 4
         \<and> registered s' = registered example_registry @ [\<lparr>tex_tag = ''stone'', tex_ID = 11\<rparr>]
         \<and> FindTextureSlot s' ''stone'' = Inr 3 \<and> FindTextureID s' ''stone'' = Inr 11)"
proof -
  have g: "grey_load ''Debug/wood.jpg'' = Some \<lparr>width = 64, height = 64, colorChannels = 1\<rparr>"
    by (simp add: grey_load_def)
  have a: "''stone'' \<notin> tex_tag ` set (registered example_registry)"
    by (simp add: example_registered)
  show ?thesis
    using CreateGLTexture_registers[where stbi_load = grey_load and filename = "''Debug/wood.jpg''",
        OF g, of 11 "''stone''" example_registry]
      CreateGLTexture_registers[where stbi_load = example_load and filename = "''Debug/wood.jpg''",
        OF example_load_wood, of 11 "''stone''" example_registry]
      a
    by (simp add: example_registry_fields)
qed

text \<open>
  The claim as stated fails when the tag is registered already: the load succeeds and
  the entry goes to slot 3 with handle 11, but the lookups still answer slot 1 and
  handle 7.
\<close>

theorem second_load_of_a_tag_is_shadowed:
  "CreateGLTexture example_load 11 ''Debug/wood.jpg'' ''wood'' example_registry = Inr (True, second_wood)
   \<and> FindTextureSlot second_wood ''wood'' = Inr 1
   \<and> FindTextureID second_wood ''wood'' = Inr 7"
proof (intro conjI)
  show "CreateGLTexture example_load 11 ''Debug/wood.jpg'' ''wood'' example_registry = Inr (True, second_wood)"
    by (simp add: CreateGLTexture_def Let_def emit_def example_load_def second_wood_def
        example_registry_def)
  have k: "(1::nat) < length (registered second_wood)" "tex_tag (registered second_wood ! 1) = ''wood''"
    "\<forall>i<1. tex_tag (registered second_wood ! i) \<noteq> ''wood''"
    by (simp_all add: second_wood_registered)
  show "FindTextureSlot second_wood ''wood'' = Inr 1"
    using FindTextureSlot_first[OF second_wood_ok k] by simp
  show "FindTextureID second_wood ''wood'' = Inr 7"
    using FindTextureID_first[OF second_wood_ok k] by (simp add: second_wood_registered)
qed

section \<open>The capacity of the texture array\<close>

text \<open>
  Claim C3. The code does not reject a load when 16 textures are loaded. With the
  count at 16 and an image of 3 channels, \<open>CreateGLTexture\<close> reaches the assignment
  to \<^verbatim>\<open>m_textureIDs[16]\<close>, one past the last entry of the array, and does not return
  false.
\<close>

theorem seventeenth_load_overruns:
  "CreateGLTexture example_load 17 ''Debug/wood.jpg'' ''seventeenth'' full_registry = Inl WritePastArray"
  by (rule CreateGLTexture_overrun[where img = "\<lparr>width = 512, height = 512, colorChannels = 3\<rparr>"])
     (simp_all add: example_load_def full_registry_count)

section \<open>What the setters do\<close>

lemma FindTextureSlot_loop_cong:
  "m_loadedTextures s = m_loadedTextures t \<Longrightarrow> m_textureIDs s = m_textureIDs t \<Longrightarrow>
   FindTextureSlot_loop s tag st = FindTextureSlot_loop t tag st"
proof (induction s tag st rule: FindTextureSlot_loop.induct)
  case (1 s tag textureSlot index bFound)
  have at: "texture_at t index = texture_at s index"
    using "1.prems" by (simp add: texture_at_def)
  have n: "m_loadedTextures t = m_loadedTextures s" using "1.prems" by simp
  have unfold_s: "FindTextureSlot_loop s tag (textureSlot, index, bFound) =
     (if index < m_loadedTextures s \<and> bFound = False then
        (case texture_at s index of
           Inl e \<Rightarrow> Inl e
         | Inr x \<Rightarrow>
             if tex_tag x = tag
             then FindTextureSlot_loop s tag (index, index, True)
             else FindTextureSlot_loop s tag (textureSlot, index + 1, bFound))
      else Inr textureSlot)"
    by (rule FindTextureSlot_loop.simps)
  have unfold_t: "FindTextureSlot_loop t tag (textureSlot, index, bFound) =
     (if index < m_loadedTextures s \<and> bFound = False then
        (case texture_at s index of
           Inl e \<Rightarrow> Inl e
         | Inr x \<Rightarrow>
             if tex_tag x = tag
             then FindTextureSlot_loop t tag (index, index, True)
             else FindTextureSlot_loop t tag (textureSlot, index + 1, bFound))
      else Inr textureSlot)"
    unfolding n[symmetric] at[symmetric] by (rule FindTextureSlot_loop.simps)
  show ?case
  proof (cases "index < m_loadedTextures s \<and> bFound = False")
    case False
    have "FindTextureSlot_loop s tag (textureSlot, index, bFound) = Inr textureSlot"
      unfolding unfold_s using False by (rule if_not_P)
    moreover have "FindTextureSlot_loop t tag (textureSlot, index, bFound) = Inr textureSlot"
      unfolding unfold_t using False by (rule if_not_P)
    ultimately show ?thesis by simp
  next
    case c: True
    show ?thesis
    proof (cases "texture_at s index")
      case (Inl e)
      have "FindTextureSlot_loop s tag (textureSlot, index, bFound) = Inl e"
        unfolding unfold_s if_P[OF c] Inl by simp
      moreover have "FindTextureSlot_loop t tag (textureSlot, index, bFound) = Inl e"
        unfolding unfold_t if_P[OF c] Inl by simp
      ultimately show ?thesis by simp
    next
      case (Inr x)
      show ?thesis
      proof (cases "tex_tag x = tag")
        case True
        have ih: "FindTextureSlot_loop s tag (index, index, True) = FindTextureSlot_loop t tag (index, index, True)"
          using "1.IH"(1)[OF c Inr True "1.prems"] .
        have "FindTextureSlot_loop s tag (textureSlot, index, bFound)
            = FindTextureSlot_loop s tag (index, index, True)"
          unfolding unfold_s if_P[OF c] Inr sum.case if_P[OF True] ..
        moreover have "FindTextureSlot_loop t tag (textureSlot, index, bFound)
            = FindTextureSlot_loop t tag (index, index, True)"
          unfolding unfold_t if_P[OF c] Inr sum.case if_P[OF True] ..
        ultimately show ?thesis using ih by simp
      next
        case False
        have ih: "FindTextureSlot_loop s tag (textureSlot, index + 1, bFound)
            = FindTextureSlot_loop t tag (textureSlot, index + 1, bFound)"
          using "1.IH"(2)[OF c Inr False "1.prems"] .
        have "FindTextureSlot_loop s tag (textureSlot, index, bFound)
            = FindTextureSlot_loop s tag (textureSlot, index + 1, bFound)"
          unfolding unfold_s if_P[OF c] Inr sum.case if_not_P[OF False] ..
        moreover have "FindTextureSlot_loop t tag (textureSlot, index, bFound)
            = FindTextureSlot_loop t tag (textureSlot, index + 1, bFound)"
          unfolding unfold_t if_P[OF c] Inr sum.case if_not_P[OF False] ..
        ultimately show ?thesis using ih by simp
      qed
    qed
  qed
qed


lemma FindTextureSlot_cong:
  "m_loadedTextures s = m_loadedTextures t \<Longrightarrow> m_textureIDs s = m_textureIDs t \<Longrightarrow>
   FindTextureSlot s tag = FindTextureSlot t tag"
  unfolding FindTextureSlot_def by (rule FindTextureSlot_loop_cong)

lemma FindMaterial_loop_cong:
  "m_objectMaterials s = m_objectMaterials t \<Longrightarrow>
   FindMaterial_loop s tag st = FindMaterial_loop t tag st"
proof (induction s tag st rule: FindMaterial_loop.induct)
  case (1 s tag index bFound material)
  note eq = "1.prems"
  have unfold_s: "FindMaterial_loop s tag (index, bFound, material) =
     (if index < length (m_objectMaterials s) \<and> \<not> bFound then
        (if mat_tag (m_objectMaterials s ! index) = tag
         then FindMaterial_loop s tag (index, True, m_objectMaterials s ! index)
         else FindMaterial_loop s tag (index + 1, bFound, material))
      else (bFound, material))"
    by (rule FindMaterial_loop.simps)
  have unfold_t: "FindMaterial_loop t tag (index, bFound, material) =
     (if index < length (m_objectMaterials s) \<and> \<not> bFound then
        (if mat_tag (m_objectMaterials s ! index) = tag
         then FindMaterial_loop t tag (index, True, m_objectMaterials s ! index)
         else FindMaterial_loop t tag (index + 1, bFound, material))
      else (bFound, material))"
    unfolding eq by (rule FindMaterial_loop.simps)
  show ?case
  proof (cases "index < length (m_objectMaterials s) \<and> \<not> bFound")
    case False
    have "FindMaterial_loop s tag (index, bFound, material) = (bFound, material)"
      unfolding unfold_s using False by (rule if_not_P)
    moreover have "FindMaterial_loop t tag (index, bFound, material) = (bFound, material)"
      unfolding unfold_t using False by (rule if_not_P)
    ultimately show ?thesis by simp
  next
    case c: True
    show ?thesis
    proof (cases "mat_tag (m_objectMaterials s ! index) = tag")
      case True
      have ih: "FindMaterial_loop s tag (index, True, m_objectMaterials s ! index)
          = FindMaterial_loop t tag (index, True, m_objectMaterials s ! index)"
        using "1.IH"(1)[OF c True eq] .
      have "FindMaterial_loop s tag (index, bFound, material)
          = FindMaterial_loop s tag (index, True, m_objectMaterials s ! index)"
        unfolding unfold_s if_P[OF c] if_P[OF True] ..
      moreover have "FindMaterial_loop t tag (index, bFound, material)
          = FindMaterial_loop t tag (index, True, m_objectMaterials s ! index)"
        unfolding unfold_t if_P[OF c] if_P[OF True] ..
      ultimately show ?thesis using ih by simp
    next
      case False
      have ih: "FindMaterial_loop s tag (index + 1, bFound, material)
          = FindMaterial_loop t tag (index + 1, bFound, material)"
        using "1.IH"(2)[OF c False eq] .
      have "FindMaterial_loop s tag (index, bFound, material)
          = FindMaterial_loop s tag (index + 1, bFound, material)"
        unfolding unfold_s if_P[OF c] if_not_P[OF False] ..
      moreover have "FindMaterial_loop t tag (index, bFound, material)
          = FindMaterial_loop t tag (index + 1, bFound, material)"
        unfolding unfold_t if_P[OF c] if_not_P[OF False] ..
      ultimately show ?thesis using ih by simp
    qed
  qed
qed

lemma FindMaterial_cong:
  "m_objectMaterials s = m_objectMaterials t \<Longrightarrow> FindMaterial s tag m = FindMaterial t tag m"
  unfolding FindMaterial_def by (simp add: FindMaterial_loop_cong[of s t])

lemma FindTextureSlot_calls [simp]: "FindTextureSlot (s\<lparr>calls := cs\<rparr>) tag = FindTextureSlot s tag"
  by (rule FindTextureSlot_cong) simp_all

lemma FindTextureSlot_statics [simp]: "FindTextureSlot (s\<lparr>statics := c\<rparr>) tag = FindTextureSlot s tag"
  by (rule FindTextureSlot_cong) simp_all

lemma FindMaterial_calls [simp]: "FindMaterial (s\<lparr>calls := cs\<rparr>) tag m = FindMaterial s tag m"
  by (rule FindMaterial_cong) simp

lemma FindMaterial_statics [simp]: "FindMaterial (s\<lparr>statics := c\<rparr>) tag m = FindMaterial s tag m"
  by (rule FindMaterial_cong) simp

lemma material_calls_calls [simp]: "material_calls (s\<lparr>calls := cs\<rparr>) tag = material_calls s tag"
  by (simp add: material_calls_def)

lemma material_calls_statics [simp]: "material_calls (s\<lparr>statics := c\<rparr>) tag = material_calls s tag"
  by (simp add: material_calls_def)

lemma SetShaderMaterial_calls:
  assumes "m_pShaderManager s = Some sh"
  shows "SetShaderMaterial tag s = Inr (s\<lparr>calls := calls s @ material_calls s tag\<rparr>)"
proof (cases "m_objectMaterials s \<noteq> []")
  case False
  then show ?thesis by (simp add: SetShaderMaterial_def material_calls_def)
next
  case True
  obtain b m where f: "FindMaterial s tag unwritten_material = (b, m)" by force
  show ?thesis
    using True f assms
    by (cases b) (simp_all add: SetShaderMaterial_def material_calls_def shader_set_def emit_def)
qed

lemma SetShaderTexture_calls:
  assumes "m_pShaderManager s = Some sh" "FindTextureSlot s tag = Inr slot"
  shows "SetShaderTexture tag s =
     Inr (s\<lparr>calls := calls s @ [SetUniform ''bUseTexture'' (IntV 1),
                                 SetUniform ''objectTexture'' (Sampler2DV slot)]\<rparr>)"
  using assms by (simp add: SetShaderTexture_def emit_def Let_def)

section \<open>What one frame does\<close>

lemma seq_shader_sets:
  assumes "m_pShaderManager s = Some sh"
  shows "seq (map (\<lambda>(name, v). shader_set name v) xs) s
       = Inr (s\<lparr>calls := calls s @ map (\<lambda>(name, v). SetUniform name v) xs\<rparr>)"
  using assms
proof (induction xs arbitrary: s)
  case Nil
  then show ?case by simp
next
  case (Cons x xs)
  obtain n v where x: "x = (n, v)" by (cases x)
  have "m_pShaderManager (s\<lparr>calls := calls s @ [SetUniform n v]\<rparr>) = Some sh"
    using Cons.prems by simp
  from Cons.IH[OF this] show ?case
    using Cons.prems by (simp add: x shader_set_def emit_def)
qed

lemma SetupSceneLights_calls:
  assumes "m_pShaderManager s = Some sh"
  shows "SetupSceneLights p f s
       = Inr (s\<lparr>calls := calls s @ map (\<lambda>(name, v). SetUniform name v) (light_uniforms p f)\<rparr>)"
  unfolding SetupSceneLights_def using assms by (rule seq_shader_sets)

lemma SetShaderTexture_case:
  assumes "m_pShaderManager s = Some sh"
  shows "SetShaderTexture tag s =
     (case FindTextureSlot s tag of
        Inl e \<Rightarrow> Inl e
      | Inr slot \<Rightarrow> Inr (s\<lparr>calls := calls s @ [SetUniform ''bUseTexture'' (IntV 1),
                                 SetUniform ''objectTexture'' (Sampler2DV slot)]\<rparr>))"
  using assms by (simp add: SetShaderTexture_def emit_def Let_def split: sum.splits)

lemma draw_objects_calls:
  assumes sh: "m_pShaderManager s = Some sh" and slot: "FindTextureSlot s ''wood'' = Inr slot"
  shows "seq draw_objects s =
     Inr (s\<lparr>calls := calls s @ object_calls slot (material_calls s ''woodMaterial'')
                                 (material_calls s ''whiteMaterial'')\<rparr>)"
  using sh slot
  by (simp add: draw_objects_def object_calls_def ok_def emit_def shader_set_def
      SetTransformations_def SetTextureUVScale_def SetShaderColor_def
      SetShaderTexture_case[where sh = sh] SetShaderMaterial_calls[where sh = sh])


lemma seq_append:
  "seq (xs @ ys) s = (case seq xs s of Inl e \<Rightarrow> Inl e | Inr s' \<Rightarrow> seq ys s')"
  by (induction xs arbitrary: s) (auto split: sum.splits)

lemma RenderScene_effect:
  assumes sh: "m_pShaderManager s = Some sh" and slot: "FindTextureSlot s ''wood'' = Inr slot"
    and w: "glfwGetCurrentContext env = Some window"
  shows "RenderScene env s =
     Inr (s\<lparr>statics := update_camera (glfwGetTime env) window (statics s),
            calls := calls s @ frame_calls (statics s)
                       (update_camera (glfwGetTime env) window (statics s)) slot
                       (material_calls s ''woodMaterial'') (material_calls s ''whiteMaterial'')\<rparr>)"
proof -
  define c' where "c' = update_camera (glfwGetTime env) window (statics s)"
  define s1 where "s1 = s\<lparr>statics := c',
     calls := calls s @ [glClearColor (0.05, 0.05, 0.1, 1.0), glClear, glfwSetWindowUserPointer,
        glfwSetScrollCallback, SetUniform ''viewPos'' (Vec3F (cameraPos (statics s))),
        SetUniform ''bUseLighting'' (IntV 1)]
       @ map (\<lambda>(name, v). SetUniform name v) (light_uniforms (cameraPos (statics s)) (cameraFront (statics s)))
       @ [SetUniform ''view'' (Mat4F (view_matrix c')),
          SetUniform ''projection'' (Mat4V (projection_matrix c'))]\<rparr>"
  have pre: "seq [ok (emit (glClearColor (0.05, 0.05, 0.1, 1.0))),
                ok (emit glClear),
                ok (emit glfwSetWindowUserPointer),
                ok (emit glfwSetScrollCallback),
                (\<lambda>s. shader_set ''viewPos'' (Vec3F (cameraPos (statics s))) s),
                shader_set ''bUseLighting'' (IntV 1),
                (\<lambda>s. SetupSceneLights (cameraPos (statics s)) (cameraFront (statics s)) s),
                ok (\<lambda>s. s\<lparr>statics := update_camera (glfwGetTime env) window (statics s)\<rparr>),
                (\<lambda>s. shader_set ''view'' (Mat4F (view_matrix (statics s))) s),
                (\<lambda>s. shader_set ''projection'' (Mat4V (projection_matrix (statics s))) s)] s = Inr s1"
    using sh
    by (simp add: ok_def emit_def shader_set_def SetupSceneLights_calls[where sh = sh] s1_def c'_def)
  have sh1: "m_pShaderManager s1 = Some sh" using sh by (simp add: s1_def)
  have slot1: "FindTextureSlot s1 ''wood'' = Inr slot" using slot by (simp add: s1_def)
  have m1: "material_calls s1 tag = material_calls s tag" for tag by (simp add: s1_def)
  have "RenderScene env s = seq draw_objects s1"
    unfolding RenderScene_def w option.case seq_append pre by simp
  also have "\<dots> = Inr (s1\<lparr>calls := calls s1 @ object_calls slot (material_calls s ''woodMaterial'')
                                 (material_calls s ''whiteMaterial'')\<rparr>)"
    using draw_objects_calls[OF sh1 slot1] by (simp add: m1)
  also have "\<dots> = Inr (s\<lparr>statics := c',
            calls := calls s @ frame_calls (statics s) c' slot
                       (material_calls s ''woodMaterial'') (material_calls s ''whiteMaterial'')\<rparr>)"
    by (simp add: s1_def frame_calls_def)
  finally show ?thesis by (simp add: c'_def)
qed

section \<open>Facts about single-precision values\<close>

lemma float_exp_from_ge: "e \<le> float_exp_from e a"
proof (induction e a rule: float_exp_from.induct)
  case (1 e a)
  show ?case
  proof (cases "e < 104 \<and> 2 powi (e + 24) \<le> a")
    case True
    then have "float_exp_from e a = float_exp_from (e + 1) a"
      by (subst float_exp_from.simps) simp
    then show ?thesis using "1.IH"[OF True] by simp
  next
    case False
    then have "float_exp_from e a = e" by (subst float_exp_from.simps) auto
    then show ?thesis by simp
  qed
qed

lemma float_exp_from_le: "e \<le> 104 \<Longrightarrow> float_exp_from e a \<le> 104"
proof (induction e a rule: float_exp_from.induct)
  case (1 e a)
  show ?case
  proof (cases "e < 104 \<and> 2 powi (e + 24) \<le> a")
    case True
    then have "float_exp_from e a = float_exp_from (e + 1) a"
      by (subst float_exp_from.simps) simp
    then show ?thesis using "1.IH"[OF True] True by simp
  next
    case False
    then have "float_exp_from e a = e" by (subst float_exp_from.simps) auto
    then show ?thesis using "1.prems" by simp
  qed
qed

text \<open>The scan stops at the first exponent whose binade holds the magnitude.\<close>

lemma float_exp_from_upper: "a < 2 powi (k + 24) \<Longrightarrow> e \<le> k \<Longrightarrow> float_exp_from e a \<le> k"
proof (induction e a rule: float_exp_from.induct)
  case (1 e a)
  show ?case
  proof (cases "e < 104 \<and> 2 powi (e + 24) \<le> a")
    case True
    then have eq: "float_exp_from e a = float_exp_from (e + 1) a"
      by (subst float_exp_from.simps) simp
    have "e \<noteq> k" using True "1.prems"(1) by auto
    then have "e + 1 \<le> k" using "1.prems"(2) by simp
    then show ?thesis using "1.IH"[OF True "1.prems"(1)] eq by simp
  next
    case False
    then have "float_exp_from e a = e" by (subst float_exp_from.simps) auto
    then show ?thesis using "1.prems" by simp
  qed
qed

lemma float_exp_from_lower:
  "2 powi (k + 23) \<le> a \<Longrightarrow> k \<le> 104 \<Longrightarrow> e \<le> k \<Longrightarrow> k \<le> float_exp_from e a"
proof (induction e a rule: float_exp_from.induct)
  case (1 e a)
  show ?case
  proof (cases "e < 104 \<and> 2 powi (e + 24) \<le> a")
    case True
    then have eq: "float_exp_from e a = float_exp_from (e + 1) a"
      by (subst float_exp_from.simps) simp
    show ?thesis
    proof (cases "e = k")
      case True
      then show ?thesis using float_exp_from_ge[of e a] by simp
    next
      case False
      then have "e + 1 \<le> k" using "1.prems"(3) by simp
      then show ?thesis using "1.IH"[OF True "1.prems"(1,2)] eq by simp
    qed
  next
    case False
    then have r: "float_exp_from e a = e" by (subst float_exp_from.simps) auto
    show ?thesis
    proof (cases "e = k")
      case True
      then show ?thesis using r by simp
    next
      case ne: False
      then have lt: "e < k" using "1.prems"(3) by simp
      then have "e < 104" using "1.prems"(2) by simp
      then have "a < 2 powi (e + 24)" using False by auto
      moreover have "(2::real) powi (e + 24) \<le> 2 powi (k + 23)"
        using lt by (intro power_int_increasing) auto
      ultimately show ?thesis using "1.prems"(1) by simp
    qed
  qed
qed

lemma float_exp_range: "- 149 \<le> float_exp x \<and> float_exp x \<le> 104"
  unfolding float_exp_def using float_exp_from_ge[of "- 149" "\<bar>x\<bar>"] float_exp_from_le[of "- 149" "\<bar>x\<bar>"]
  by simp

lemma float_exp_eq:
  assumes "2 powi (k + 23) \<le> \<bar>x\<bar>" "\<bar>x\<bar> < 2 powi (k + 24)" "- 149 \<le> k" "k \<le> 104"
  shows "float_exp x = k"
  unfolding float_exp_def
  using float_exp_from_upper[OF assms(2), of "- 149"] float_exp_from_lower[OF assms(1), of "- 149"] assms(3,4)
  by simp

lemma round_half_even_of_int [simp]: "round_half_even (of_int m) = m"
  by (simp add: round_half_even_def)

lemma round_half_even_error: "\<bar>of_int (round_half_even q) - q\<bar> \<le> 1 / 2"
  unfolding round_half_even_def Let_def by (auto simp: abs_if) linarith+


lemma float_round_not_NaN [simp]: "float_round x \<noteq> NaN"
  by (simp add: float_round_def Let_def)

text \<open>A value \<open>m \<cdot> 2\<^sup>j\<close> with \<open>|m| < 2\<^sup>2\<^sup>4\<close> and \<open>-149 \<le> j \<le> 104\<close> is a float and is kept.\<close>

lemma float_round_exact:
  assumes "\<bar>m\<bar> < 2 ^ 24" "- 149 \<le> j" "j \<le> 104"
  shows "float_round (of_int m * 2 powi j) = Fin (of_int m * 2 powi j)"
proof -
  define x :: real where "x = of_int m * 2 powi j"
  define e where "e = float_exp x"
  have "\<bar>x\<bar> = \<bar>of_int m\<bar> * 2 powi j" by (simp add: x_def abs_mult)
  also have "\<dots> < 2 ^ 24 * 2 powi j"
    using assms(1) by (intro mult_strict_right_mono) (auto simp: of_int_abs[symmetric] simp del: of_int_abs)
  also have "\<dots> = 2 powi (j + 24)" by (simp add: power_int_add)
  finally have ub: "\<bar>x\<bar> < 2 powi (j + 24)" .
  have ej: "e \<le> j"
    unfolding e_def float_exp_def using float_exp_from_upper[OF ub, of "- 149"] assms(2) by simp
  have "x / 2 powi e = of_int m * 2 powi (j - e)"
    by (simp add: x_def power_int_diff)
  also have "\<dots> = of_int m * 2 ^ nat (j - e)"
    using ej by (simp add: power_int_def)
  also have "\<dots> = of_int (m * 2 ^ nat (j - e))" by simp
  finally have q: "x / 2 powi e = of_int (m * 2 ^ nat (j - e))" .
  have r: "of_int (round_half_even (x / 2 powi e)) * 2 powi e = x"
    unfolding q round_half_even_of_int using q by (simp add: field_simps)
  have "\<bar>x\<bar> < 2 ^ 128"
  proof -
    have "(2::real) powi (j + 24) \<le> 2 powi 128"
      using assms(3) by (intro power_int_increasing) auto
    then show ?thesis using ub by simp
  qed
  then have "\<not> 2 ^ 128 \<le> x" "\<not> x \<le> - (2 ^ 128)" by (auto simp: abs_if split: if_splits)
  then show ?thesis
    unfolding float_round_def Let_def e_def[symmetric] x_def[symmetric] r by simp
qed

lemma float_round_of_int:
  assumes "\<bar>m\<bar> < 2 ^ 24"
  shows "float_round (of_int m) = Fin (of_int m)"
  using float_round_exact[OF assms, of 0] by simp

lemma float_round_zero [simp]: "float_round 0 = Fin 0"
  using float_round_of_int[of 0] by simp

text \<open>Below \<open>2\<^sup>1\<^sup>2\<^sup>8 - 2\<^sup>1\<^sup>0\<^sup>3\<close> in magnitude the rounded value is finite.\<close>

lemma float_round_finite:
  assumes "\<bar>x\<bar> < 2 ^ 128 - 2 ^ 103"
  shows "\<exists>r. float_round x = Fin r"
proof -
  define e where "e = float_exp x"
  define r :: real where "r = of_int (round_half_even (x / 2 powi e)) * 2 powi e"
  have e: "e \<le> 104" unfolding e_def using float_exp_range by simp
  have pos: "(0::real) < 2 powi e" by simp
  have "r - x = (of_int (round_half_even (x / 2 powi e)) - x / 2 powi e) * 2 powi e"
    unfolding r_def by (simp add: left_diff_distrib)
  then have "\<bar>r - x\<bar> = \<bar>of_int (round_half_even (x / 2 powi e)) - x / 2 powi e\<bar> * 2 powi e"
    by (simp add: abs_mult)
  also have "\<dots> \<le> 1 / 2 * 2 powi e"
    by (intro mult_right_mono round_half_even_error) simp
  also have "\<dots> \<le> 1 / 2 * 2 powi 104"
    using e by (intro mult_left_mono power_int_increasing) auto
  also have "\<dots> = 2 ^ 103" by simp
  finally have "\<bar>r - x\<bar> \<le> 2 ^ 103" .
  then have "\<bar>r\<bar> < 2 ^ 128" using assms by linarith
  then have "\<not> 2 ^ 128 \<le> r" "\<not> r \<le> - (2 ^ 128)" by (auto simp: abs_if split: if_splits)
  then show ?thesis
    unfolding float_round_def Let_def e_def[symmetric] r_def[symmetric] by simp
qed

lemma float_round_overflow: "float_round (2 ^ 128) = PInf"
proof -
  define x :: real where "x = 2 ^ 128"
  have "104 \<le> float_exp x"
    unfolding float_exp_def x_def by (intro float_exp_from_lower) simp_all
  then have e: "float_exp x = 104" using float_exp_range[of x] by simp
  have q: "x / 2 powi 104 = of_int (2 ^ 24)" by (simp add: x_def)
  have r: "of_int (round_half_even (x / 2 powi 104)) * 2 powi 104 = x"
    unfolding q round_half_even_of_int by (simp add: x_def)
  have "float_round x = PInf"
    unfolding float_round_def Let_def e r by (simp add: x_def)
  then show ?thesis unfolding x_def .
qed

lemma float_round_cases: "(\<exists>r. float_round x = Fin r) \<or> float_round x = PInf \<or> float_round x = NInf"
  by (simp add: float_round_def Let_def)

lemma float_round_beyond: "float_round beyond_float = PInf"
  unfolding beyond_float_def by (rule float_round_overflow)

text \<open>The sensitivity \<^verbatim>\<open>0.1f\<close>.\<close>

lemma sensitivity_value: "float_round 0.1 = Fin (13421773 * 2 powi (- 27))"
proof -
  have e: "float_exp (0.1::real) = - 27"
    by (rule float_exp_eq) simp_all
  have "round_half_even (0.1 / 2 powi (- 27)) = 13421773"
    by (simp add: round_half_even_def Let_def)
  then show ?thesis
    by (simp add: float_round_def Let_def e)
qed

lemma fadd_not_NaN: "b \<noteq> NaN \<Longrightarrow> fadd (Fin p) b \<noteq> NaN"
  by (cases b) simp_all

lemma fsub_finite_not_NaN: "is_finite a \<Longrightarrow> is_finite b \<Longrightarrow> fsub a b \<noteq> NaN"
  by (cases a; cases b) (simp_all add: fsub_def)

lemma fmul_nonzero_not_NaN: "a \<noteq> NaN \<Longrightarrow> c \<noteq> 0 \<Longrightarrow> fmul a (Fin c) \<noteq> NaN"
  by (cases a) simp_all

lemma fsub_self: "is_finite a \<Longrightarrow> fsub a a = Fin 0"
  by (cases a) (simp_all add: fsub_def)

lemma fmul_zero: "fmul (Fin 0) (Fin c) = Fin 0"
  by simp

lemma fadd_zero: "exact a \<Longrightarrow> fadd a (Fin 0) = a"
  by (cases a) simp_all

lemma glm_clamp_pinned:
  assumes "lo \<le> hi"
  shows "glm_clamp x (Fin lo) (Fin hi) =
     (if flt_less (Fin hi) x then Fin hi else if flt_less x (Fin lo) then Fin lo else x)"
  using assms by (cases x) (auto simp: glm_clamp_def glm_min_def glm_max_def)

lemma glm_clamp_range:
  assumes "x \<noteq> NaN" "lo \<le> hi"
  shows "in_range lo hi (glm_clamp x (Fin lo) (Fin hi))"
  using assms by (cases x) (auto simp: glm_clamp_def glm_min_def glm_max_def)

lemma glm_clamp_inside: "in_range lo hi x \<Longrightarrow> glm_clamp x (Fin lo) (Fin hi) = x"
  by (cases x) (auto simp: glm_clamp_def glm_min_def glm_max_def)

text \<open>A reading that is a small integer is a \<^verbatim>\<open>float\<close> and is kept.\<close>

lemma static_cast_float_of_int:
  "\<bar>m\<bar> < 2 ^ 24 \<Longrightarrow> static_cast_float (of_int m) = Fin (of_int m)"
  unfolding static_cast_float_def by (rule float_round_of_int)

text \<open>A reading that is not a \<^verbatim>\<open>float\<close> is rounded: \<open>2\<^sup>2\<^sup>4 + 1\<close> becomes \<open>2\<^sup>2\<^sup>4\<close>.\<close>

lemma static_cast_float_rounds: "static_cast_float 16777217 = Fin 16777216"
proof -
  have e: "float_exp (16777217::real) = 1"
    by (rule float_exp_eq) simp_all
  have "round_half_even (16777217 / 2 powi 1) = 8388608"
    by (simp add: round_half_even_def Let_def)
  then show ?thesis
    by (simp add: static_cast_float_def float_round_def Let_def e)
qed

text \<open>5300 pixels times the sensitivity is 530 degrees after rounding.\<close>

lemma scaled_movement: "float_round (5300 * (13421773 * 2 powi (- 27))) = Fin 530"
proof -
  define x :: real where "x = 5300 * (13421773 * 2 powi (- 27))"
  have e: "float_exp x = - 14"
    by (rule float_exp_eq) (simp_all add: x_def)
  have "round_half_even (x / 2 powi (- 14)) = 8683520"
    by (simp add: round_half_even_def Let_def x_def)
  then have "float_round x = Fin 530"
    by (simp add: float_round_def Let_def e)
  then show ?thesis unfolding x_def .
qed

section \<open>The camera\<close>

lemma mouse_input_fields:
  "pitch (mouse_input xpos ypos c) =
     glm_clamp (fadd (pitch c)
        (fmul (fsub (if firstMouse c then static_cast_float ypos else lastY c) (static_cast_float ypos))
              (float_round 0.1))) (Fin (- 89)) (Fin 89)"
  "yaw (mouse_input xpos ypos c) =
     fadd (yaw c)
        (fmul (fsub (static_cast_float xpos) (if firstMouse c then static_cast_float xpos else lastX c))
              (float_round 0.1))"
  "lastX (mouse_input xpos ypos c) = static_cast_float xpos"
  "lastY (mouse_input xpos ypos c) = static_cast_float ypos"
  "firstMouse (mouse_input xpos ypos c) = False"
  "perspectiveMode (mouse_input xpos ypos c) = perspectiveMode c"
  by (simp_all add: mouse_input_def Let_def)

lemma keyboard_input_fields:
  "pitch (keyboard_input pressed a c) = pitch c"
  "yaw (keyboard_input pressed a c) = yaw c"
  "lastX (keyboard_input pressed a c) = lastX c"
  "lastY (keyboard_input pressed a c) = lastY c"
  "firstMouse (keyboard_input pressed a c) = firstMouse c"
  "perspectiveMode (keyboard_input pressed a c) = perspectiveMode c"
  by (simp_all add: keyboard_input_def Let_def)

lemma projection_toggle_fields:
  "pitch (projection_toggle pressed c) = pitch c"
  "yaw (projection_toggle pressed c) = yaw c"
  "lastX (projection_toggle pressed c) = lastX c"
  "lastY (projection_toggle pressed c) = lastY c"
  "firstMouse (projection_toggle pressed c) = firstMouse c"
  "perspectiveMode (projection_toggle pressed c) =
     (if pressed GLFW_KEY_O then False else if pressed GLFW_KEY_P then True else perspectiveMode c)"
  by (simp_all add: projection_toggle_def Let_def)

lemma update_camera_fields:
  "pitch (update_camera t w c) = glm_clamp (unclamped_pitch w c) (Fin (- 89)) (Fin 89)"
  "yaw (update_camera t w c) =
     fadd (yaw c)
        (fmul (fsub (static_cast_float (fst (cursorPos w)))
                    (if firstMouse c then static_cast_float (fst (cursorPos w)) else lastX c))
              (float_round 0.1))"
  "lastX (update_camera t w c) = static_cast_float (fst (cursorPos w))"
  "lastY (update_camera t w c) = static_cast_float (snd (cursorPos w))"
  "firstMouse (update_camera t w c) = False"
  "perspectiveMode (update_camera t w c) =
     (if keyPressed w GLFW_KEY_O then False else if keyPressed w GLFW_KEY_P then True
      else perspectiveMode c)"
  by (simp_all add: update_camera_def Let_def projection_toggle_fields keyboard_input_fields
      mouse_input_fields unclamped_pitch_def)

text \<open>With finite operands the pitch before the clamp is a number, finite or infinite.\<close>

lemma unclamped_pitch_not_NaN:
  assumes "is_finite (pitch c)" "is_finite (lastY c)" "is_finite (static_cast_float (snd (cursorPos w)))"
  shows "unclamped_pitch w c \<noteq> NaN"
proof -
  obtain p where p: "pitch c = Fin p" using assms(1) by (cases "pitch c") simp_all
  have "fsub (if firstMouse c then static_cast_float (snd (cursorPos w)) else lastY c)
          (static_cast_float (snd (cursorPos w))) \<noteq> NaN"
    using assms(2,3) by (intro fsub_finite_not_NaN) simp_all
  then have "fmul (fsub (if firstMouse c then static_cast_float (snd (cursorPos w)) else lastY c)
          (static_cast_float (snd (cursorPos w)))) (float_round 0.1) \<noteq> NaN"
    unfolding sensitivity_value by (rule fmul_nonzero_not_NaN) simp
  then show ?thesis
    unfolding unclamped_pitch_def p by (rule fadd_not_NaN)
qed

lemma in_range_finite: "in_range lo hi x \<Longrightarrow> is_finite x"
  by (cases x) simp_all

text \<open>A frame returns when there is a shader manager and the registry is intact.\<close>

lemma RenderScene_returns:
  assumes sh: "m_pShaderManager s = Some sh" and ok: "registry_ok s"
  shows "\<exists>s'. RenderScene env s = Inr s'
     \<and> m_pShaderManager s' = Some sh \<and> registry_ok s'
     \<and> m_objectMaterials s' = m_objectMaterials s
     \<and> statics s' = (case glfwGetCurrentContext env of
                        None \<Rightarrow> statics s
                      | Some window \<Rightarrow> update_camera (glfwGetTime env) window (statics s))"
proof (cases "glfwGetCurrentContext env")
  case None
  then show ?thesis using sh ok by (simp add: RenderScene_def)
next
  case (Some window)
  obtain slot where slot: "FindTextureSlot s ''wood'' = Inr slot"
    using FindTextureSlot_returns[OF ok] by blast
  show ?thesis
    using sh ok by (simp add: RenderScene_effect[OF sh slot Some] Some registry_ok_def)
qed

lemma fresh_fields:
  "m_pShaderManager fresh = Some ShaderManagerObject" "registry_ok fresh"
  "statics fresh = initial_camera" "m_objectMaterials fresh = []" "m_loadedTextures fresh = 0"
  "calls fresh = []"
  by (simp_all add: fresh_def construct_def registry_ok_def)

lemma moved_fields:
  "m_pShaderManager moved = Some ShaderManagerObject" "registry_ok moved"
  "statics moved = initial_camera\<lparr>firstMouse := False\<rparr>"
  by (simp_all add: moved_def fresh_def construct_def registry_ok_def)

text \<open>One frame keeps the pitch within its bounds and the last cursor position finite.\<close>

lemma frame_keeps_pitch:
  assumes "in_range (- 89) 89 (pitch c)" "is_finite (lastY c)"
    "is_finite (static_cast_float (snd (cursorPos w)))"
  shows "in_range (- 89) 89 (pitch (update_camera t w c)) \<and> is_finite (lastY (update_camera t w c))"
proof -
  have "is_finite (pitch c)" using assms(1) by (rule in_range_finite)
  then have "unclamped_pitch w c \<noteq> NaN"
    using assms(2,3) by (rule unclamped_pitch_not_NaN)
  then have "in_range (- 89) 89 (glm_clamp (unclamped_pitch w c) (Fin (- 89)) (Fin 89))"
    by (rule glm_clamp_range) simp
  then show ?thesis using assms(3) by (simp add: update_camera_fields)
qed


lemma run_frames_keeps_pitch:
  assumes "m_pShaderManager s = Some sh" "registry_ok s"
    "in_range (- 89) 89 (pitch (statics s))" "is_finite (lastY (statics s))"
    "readings_in_range envs"
  shows "\<exists>s'. run_frames envs s = Inr s'
           \<and> in_range (- 89) 89 (pitch (statics s')) \<and> is_finite (lastY (statics s'))"
  using assms
proof (induction envs arbitrary: s)
  case Nil
  then show ?case by simp
next
  case (Cons env envs)
  obtain s1 where s1: "RenderScene env s = Inr s1" "m_pShaderManager s1 = Some sh" "registry_ok s1"
    "statics s1 = (case glfwGetCurrentContext env of
                        None \<Rightarrow> statics s
                      | Some window \<Rightarrow> update_camera (glfwGetTime env) window (statics s))"
    using RenderScene_returns[OF Cons.prems(1,2), of env] by blast
  have rest: "readings_in_range envs" using Cons.prems(5) by (simp add: readings_in_range_def)
  have inv: "in_range (- 89) 89 (pitch (statics s1)) \<and> is_finite (lastY (statics s1))"
  proof (cases "glfwGetCurrentContext env")
    case None
    then show ?thesis using s1(4) Cons.prems(3,4) by simp
  next
    case (Some window)
    then have "is_finite (static_cast_float (snd (cursorPos window)))"
      using Cons.prems(5) by (simp add: readings_in_range_def)
    then show ?thesis
      using frame_keeps_pitch[OF Cons.prems(3,4)] s1(4) Some by simp
  qed
  obtain s' where "run_frames envs s1 = Inr s'" "in_range (- 89) 89 (pitch (statics s'))"
      "is_finite (lastY (statics s'))"
    using Cons.IH[OF s1(2,3) _ _ rest] inv by blast
  then show ?case using s1(1) by simp
qed

text \<open>The statics after a frame that has a window.\<close>

lemma statics_after_eq:
  assumes "m_pShaderManager s = Some sh" "registry_ok s" "glfwGetCurrentContext env = Some window"
  shows "statics_after env s = Some (update_camera (glfwGetTime env) window (statics s))"
proof -
  obtain s' where "RenderScene env s = Inr s'"
    "statics s' = update_camera (glfwGetTime env) window (statics s)"
    using RenderScene_returns[OF assms(1,2), of env] assms(3) by auto
  then show ?thesis by (simp add: statics_after_def)
qed

lemma frame_at_fields:
  "glfwGetCurrentContext (frame_at x y t) = Some (window_at x y)"
  "glfwGetTime (frame_at x y t) = t"
  "cursorPos (window_at x y) = (x, y)"
  by (simp_all add: frame_at_def window_at_def)

text \<open>
  Claim C6, as the code has it. The cursor readings are \<^verbatim>\<open>double\<close>s that the code
  narrows to \<^verbatim>\<open>float\<close>. From any state whose pitch lies in \<open>[-89, 89]\<close> and whose last
  vertical cursor position is finite, with a shader manager and the registry intact,
  every sequence of frames whose cursor readings narrow to finite floats, whatever the
  keys and the times, runs to the end and leaves the pitch in \<open>[-89, 89]\<close>. The
  sequence is arbitrary, so this holds after each frame. And one frame, whatever its
  reading, leaves the pitch that the movement gives (\<open>unclamped_pitch\<close>) pinned: 89
  when that is above 89, \<open>-89\<close> when it is below \<open>-89\<close>, and the value itself otherwise.
  By \<open>float_round_finite\<close> a reading below \<open>2\<^sup>1\<^sup>2\<^sup>8 - 2\<^sup>1\<^sup>0\<^sup>3\<close> in magnitude narrows to a finite
  float. The pitch is 0 and the last position \<open>(400, 300)\<close> when the program starts.
\<close>

theorem pitch_stays_clamped:
  assumes "m_pShaderManager s \<noteq> None" "registry_ok s"
    "in_range (- 89) 89 (pitch (statics s))" "is_finite (lastY (statics s))"
    "readings_in_range envs"
  shows "(\<exists>s'. run_frames envs s = Inr s' \<and> in_range (- 89) 89 (pitch (statics s')))
     \<and> (glfwGetCurrentContext env = Some window \<longrightarrow>
          (\<exists>s1. RenderScene env s = Inr s1
             \<and> pitch (statics s1) =
                 (if flt_less (Fin 89) (unclamped_pitch window (statics s)) then Fin 89
                  else if flt_less (unclamped_pitch window (statics s)) (Fin (- 89)) then Fin (- 89)
                  else unclamped_pitch window (statics s))))"
proof (intro conjI impI)
  obtain sh where sh: "m_pShaderManager s = Some sh" using assms(1) by auto
  show "\<exists>s'. run_frames envs s = Inr s' \<and> in_range (- 89) 89 (pitch (statics s'))"
    using run_frames_keeps_pitch[OF sh assms(2,3,4,5)] by blast
  assume w: "glfwGetCurrentContext env = Some window"
  obtain s1 where s1: "RenderScene env s = Inr s1"
    "statics s1 = update_camera (glfwGetTime env) window (statics s)"
    using RenderScene_returns[OF sh assms(2), of env] w by auto
  have "pitch (statics s1) =
                 (if flt_less (Fin 89) (unclamped_pitch window (statics s)) then Fin 89
                  else if flt_less (unclamped_pitch window (statics s)) (Fin (- 89)) then Fin (- 89)
                  else unclamped_pitch window (statics s))"
    unfolding s1(2) update_camera_fields by (rule glm_clamp_pinned) simp
  then show "\<exists>s1. RenderScene env s = Inr s1
             \<and> pitch (statics s1) =
                 (if flt_less (Fin 89) (unclamped_pitch window (statics s)) then Fin 89
                  else if flt_less (unclamped_pitch window (statics s)) (Fin (- 89)) then Fin (- 89)
                  else unclamped_pitch window (statics s))"
    using s1(1) by blast
qed

text \<open>
  An instance: the first frame seeds the cursor position, and the pitch is within its
  bounds after the two frames. From the state after the first frame the second moves
  the cursor 5300 pixels up, which would add 530 degrees; the pitch is pinned at 89.
\<close>

theorem pitch_stays_clamped_witness:
  "(\<exists>s'. run_frames [frame_at 400 300 0, frame_at 400 (- 5000) 1] fresh = Inr s'
       \<and> in_range (- 89) 89 (pitch (statics s')))
   \<and> (\<exists>s1. RenderScene (frame_at 400 (- 5000) 1) moved = Inr s1 \<and> pitch (statics s1) = Fin 89)"
proof -
  have a: "m_pShaderManager fresh \<noteq> None" "m_pShaderManager moved \<noteq> None"
    by (simp_all add: fresh_fields moved_fields)
  have b: "in_range (- 89) 89 (pitch (statics fresh))" "is_finite (lastY (statics fresh))"
    "in_range (- 89) 89 (pitch (statics moved))" "is_finite (lastY (statics moved))"
    by (simp_all add: fresh_fields moved_fields initial_camera_def)
  have n: "static_cast_float 400 = Fin 400" "static_cast_float 300 = Fin 300"
    "static_cast_float (- 5000) = Fin (- 5000)"
    using static_cast_float_of_int[of 400] static_cast_float_of_int[of 300]
      static_cast_float_of_int[of "- 5000"] by simp_all
  have r: "readings_in_range [frame_at 400 300 0, frame_at 400 (- 5000) 1]" "readings_in_range []"
    by (simp_all add: readings_in_range_def frame_at_fields n)
  have s: "float_round 5300 = Fin 5300" "float_round 530 = Fin 530"
    using float_round_of_int[of 5300] float_round_of_int[of 530] by simp_all
  have p: "pitch (statics moved) = Fin 0" "lastY (statics moved) = Fin 300"
    "firstMouse (statics moved) = False"
    by (simp_all add: moved_fields initial_camera_def)
  have "fsub (Fin 300) (Fin (- 5000)) = Fin 5300"
    by (simp add: fsub_def s)
  moreover have "fmul (Fin 5300) (float_round 0.1) = Fin 530"
    by (simp only: sensitivity_value fmul.simps scaled_movement)
  moreover have "fadd (Fin 0) (Fin 530) = Fin 530"
    by (simp add: s)
  ultimately have u: "unclamped_pitch (window_at 400 (- 5000)) (statics moved) = Fin 530"
    by (simp only: unclamped_pitch_def p frame_at_fields n if_False snd_conv)
  show ?thesis
    using pitch_stays_clamped[OF a(1) fresh_fields(2) b(1,2) r(1),
        of "frame_at 400 300 0" "window_at 400 300"]
      pitch_stays_clamped[OF a(2) moved_fields(2) b(3,4) r(2),
        of "frame_at 400 (- 5000) 1" "window_at 400 (- 5000)"]
    by (simp add: frame_at_fields u)
qed

text \<open>
  For every cursor reading the claim fails. A vertical reading of \<open>2\<^sup>1\<^sup>2\<^sup>8\<close> narrows to
  infinity; on the first frame the last position is seeded with it, the movement is
  infinity minus infinity, and the pitch, 0 before, is not a number after the clamp:
  it is not within \<open>[-89, 89]\<close>.
\<close>

theorem pitch_lost_beyond_float:
  "pitch (statics fresh) = Fin 0
   \<and> map_option pitch (statics_after (frame_at 0 beyond_float 0) fresh) = Some NaN
   \<and> map_option (in_range (- 89) 89)
         (map_option pitch (statics_after (frame_at 0 beyond_float 0) fresh)) = Some False"
proof -
  have "statics_after (frame_at 0 beyond_float 0) fresh
      = Some (update_camera 0 (window_at 0 beyond_float) (statics fresh))"
    using statics_after_eq[OF fresh_fields(1,2) frame_at_fields(1)] by (simp add: frame_at_fields)
  moreover have "unclamped_pitch (window_at 0 beyond_float) (statics fresh) = NaN"
    by (simp add: unclamped_pitch_def fresh_fields initial_camera_def frame_at_fields
        static_cast_float_def float_round_beyond fsub_def)
  ultimately show ?thesis
    by (simp add: update_camera_fields glm_clamp_def glm_min_def glm_max_def fresh_fields
        initial_camera_def)
qed

text \<open>
  Claim C7, as the code has it. On the frame that finds \<open>firstMouse\<close> still true (the
  first one that has a window), for every cursor reading that narrows to a finite
  float, the last cursor position becomes the reading narrowed to \<^verbatim>\<open>float\<close>, yaw and
  pitch keep their values and \<open>firstMouse\<close> becomes false. Yaw and pitch are floats
  (\<open>exact\<close>), and the pitch is within its bounds at that point (it is 0 at the start),
  so adding the zero movement and the clamp leave them alone.
\<close>

theorem first_frame_no_rotation:
  assumes "m_pShaderManager s \<noteq> None" "registry_ok s" "firstMouse (statics s)"
    "exact (yaw (statics s))" "exact (pitch (statics s))" "in_range (- 89) 89 (pitch (statics s))"
    "glfwGetCurrentContext env = Some window"
    "is_finite (static_cast_float (fst (cursorPos window)))"
    "is_finite (static_cast_float (snd (cursorPos window)))"
  shows "\<exists>s'. RenderScene env s = Inr s'
           \<and> lastX (statics s') = static_cast_float (fst (cursorPos window))
           \<and> lastY (statics s') = static_cast_float (snd (cursorPos window))
           \<and> yaw (statics s') = yaw (statics s)
           \<and> pitch (statics s') = pitch (statics s)
           \<and> \<not> firstMouse (statics s')"
proof -
  obtain sh where sh: "m_pShaderManager s = Some sh" using assms(1) by auto
  obtain s' where s': "RenderScene env s = Inr s'"
    "statics s' = update_camera (glfwGetTime env) window (statics s)"
    using RenderScene_returns[OF sh assms(2), of env] assms(7) by auto
  have y: "yaw (statics s') = yaw (statics s)"
    using assms(3,4,8)
    by (simp add: s'(2) update_camera_fields fsub_self sensitivity_value fadd_zero)
  have "unclamped_pitch window (statics s) = pitch (statics s)"
    using assms(3,5,9)
    by (simp add: unclamped_pitch_def fsub_self sensitivity_value fadd_zero)
  then have p: "pitch (statics s') = pitch (statics s)"
    using assms(6) by (simp add: s'(2) update_camera_fields glm_clamp_inside)
  show ?thesis
    using s' y p by (simp add: update_camera_fields)
qed

text \<open>An instance: the first frame of a fresh manager, the cursor at \<open>(123, 456)\<close>.\<close>

theorem first_frame_no_rotation_witness:
  "\<exists>s'. RenderScene (frame_at 123 456 0) fresh = Inr s'
      \<and> lastX (statics s') = Fin 123 \<and> lastY (statics s') = Fin 456
      \<and> yaw (statics s') = Fin (- 90) \<and> pitch (statics s') = Fin 0 \<and> \<not> firstMouse (statics s')"
proof -
  have a: "m_pShaderManager fresh \<noteq> None" by (simp add: fresh_fields)
  have n: "static_cast_float 123 = Fin 123" "static_cast_float 456 = Fin 456"
    using static_cast_float_of_int[of 123] static_cast_float_of_int[of 456] by simp_all
  have e: "float_round (- 90) = Fin (- 90)"
    using float_round_of_int[of "- 90"] by simp
  have b: "firstMouse (statics fresh)" "exact (yaw (statics fresh))" "exact (pitch (statics fresh))"
    "in_range (- 89) 89 (pitch (statics fresh))"
    by (simp_all add: fresh_fields initial_camera_def e)
  have c: "glfwGetCurrentContext (frame_at 123 456 0) = Some (window_at 123 456)"
    by (simp add: frame_at_fields)
  have d: "is_finite (static_cast_float (fst (cursorPos (window_at 123 456))))"
    "is_finite (static_cast_float (snd (cursorPos (window_at 123 456))))"
    by (simp_all add: frame_at_fields n)
  show ?thesis
    using first_frame_no_rotation[OF a fresh_fields(2) b c d]
    by (simp add: frame_at_fields n fresh_fields initial_camera_def)
qed

text \<open>
  For every cursor reading the claim fails. A horizontal reading of \<open>2\<^sup>1\<^sup>2\<^sup>8\<close> narrows to
  infinity, the movement on the first frame is infinity minus infinity, and the yaw,
  \<open>-90\<close> before, is not a number after the frame.
\<close>

theorem yaw_lost_beyond_float:
  "yaw (statics fresh) = Fin (- 90)
   \<and> map_option yaw (statics_after (frame_at beyond_float 0 0) fresh) = Some NaN"
proof -
  have "statics_after (frame_at beyond_float 0 0) fresh
      = Some (update_camera 0 (window_at beyond_float 0) (statics fresh))"
    using statics_after_eq[OF fresh_fields(1,2) frame_at_fields(1)] by (simp add: frame_at_fields)
  then show ?thesis
    by (simp add: update_camera_fields fresh_fields initial_camera_def frame_at_fields
        static_cast_float_def float_round_beyond fsub_def)
qed

section \<open>The uniforms a frame leaves in the shader\<close>

lemma uniform_value_append:
  "uniform_value (xs @ ys) name =
     (case uniform_value ys name of Some v \<Rightarrow> Some v | None \<Rightarrow> uniform_value xs name)"
proof (induction xs)
  case Nil
  then show ?case by (simp split: option.splits)
next
  case (Cons c xs)
  then show ?case by (cases c) (simp_all split: option.splits)
qed

lemma uniform_value_material_calls:
  assumes "name \<notin> {''material.ambientColor'', ''material.ambientStrength'',
      ''material.diffuseColor'', ''material.specularColor'', ''material.shininess''}"
  shows "uniform_value (material_calls s tag) name = None"
proof -
  obtain b m where f: "FindMaterial s tag unwritten_material = (b, m)" by force
  show ?thesis
    using assms f by (cases b) (auto simp: material_calls_def)
qed

lemma no_draw_in_material_calls: "filter is_draw (material_calls s tag) = []"
proof (cases "m_objectMaterials s = []")
  case True
  then show ?thesis by (simp add: material_calls_def)
next
  case ne: False
  obtain b m where f: "FindMaterial s tag unwritten_material = (b, m)" by force
  have "material_calls s tag = (case (b, m) of
           (True, material) \<Rightarrow>
             [SetUniform ''material.ambientColor'' (Vec3V (ambientColor material)),
              SetUniform ''material.ambientStrength'' (FloatV (ambientStrength material)),
              SetUniform ''material.diffuseColor'' (Vec3V (diffuseColor material)),
              SetUniform ''material.specularColor'' (Vec3V (specularColor material)),
              SetUniform ''material.shininess'' (FloatV (shininess material))]
         | (False, material) \<Rightarrow> [])"
    unfolding material_calls_def f using ne by simp
  then show ?thesis by (cases b) simp_all
qed

lemma projection_after_frame:
  "uniform_value (cs @ frame_calls c c' slot (material_calls s t1) (material_calls s t2)) ''projection''
     = Some (Mat4V (projection_matrix c'))"
  by (simp add: uniform_value_append frame_calls_def object_calls_def uniform_value_material_calls)

lemma perspective_is_not_ortho:
  "glm_perspective fovy aspect zNear zFar \<noteq> glm_ortho l r b t n f"
  by (simp add: glm_perspective_def glm_ortho_def Let_def)

text \<open>
  Claim C8. In a frame with a window, the test of the O key comes after the test of the
  P key, so the mode after the frame is orthographic when O is down, perspective when
  only P is down, and unchanged otherwise. The projection matrix the frame leaves in
  the shader is the one of the mode after the frame: perspective when the flag is
  true, orthographic when it is false. With both keys down the flag is false and the
  matrix is the orthographic one.
\<close>

theorem projection_last_write_wins:
  assumes "m_pShaderManager s \<noteq> None" "registry_ok s" "glfwGetCurrentContext env = Some window"
  shows "\<exists>s'. RenderScene env s = Inr s'
     \<and> uniform_value (calls s') ''projection'' =
         Some (Mat4V (if perspectiveMode (statics s')
                      then glm_perspective (glm_radians 45) (800 / 600) 0.1 100
                      else glm_ortho (- 10) 10 (- 10) 10 0.1 100))
     \<and> perspectiveMode (statics s') =
         (if keyPressed window GLFW_KEY_O then False
          else if keyPressed window GLFW_KEY_P then True
          else perspectiveMode (statics s))
     \<and> (keyPressed window GLFW_KEY_P \<and> keyPressed window GLFW_KEY_O \<longrightarrow>
          \<not> perspectiveMode (statics s')
          \<and> uniform_value (calls s') ''projection'' = Some (Mat4V (glm_ortho (- 10) 10 (- 10) 10 0.1 100)))"
proof -
  obtain sh where sh: "m_pShaderManager s = Some sh" using assms(1) by auto
  obtain slot where slot: "FindTextureSlot s ''wood'' = Inr slot"
    using FindTextureSlot_returns[OF assms(2)] by blast
  define c' where "c' = update_camera (glfwGetTime env) window (statics s)"
  define s' where "s' = s\<lparr>statics := c',
            calls := calls s @ frame_calls (statics s) c' slot
                       (material_calls s ''woodMaterial'') (material_calls s ''whiteMaterial'')\<rparr>"
  have r: "RenderScene env s = Inr s'"
    unfolding s'_def c'_def by (rule RenderScene_effect[OF sh slot assms(3)])
  have p: "uniform_value (calls s') ''projection'' = Some (Mat4V (projection_matrix (statics s')))"
    by (simp add: s'_def projection_after_frame)
  have m: "perspectiveMode (statics s') =
         (if keyPressed window GLFW_KEY_O then False
          else if keyPressed window GLFW_KEY_P then True
          else perspectiveMode (statics s))"
    by (simp add: s'_def c'_def update_camera_fields)
  show ?thesis
    using r p m by (auto simp: projection_matrix_def)
qed

text \<open>An instance: the first frame of a fresh manager (perspective so far), both keys down.\<close>

theorem projection_last_write_wins_witness:
  "\<exists>s'. RenderScene \<lparr>glfwGetCurrentContext = Some both_keys, glfwGetTime = 0\<rparr> fresh = Inr s'
     \<and> \<not> perspectiveMode (statics s')
     \<and> uniform_value (calls s') ''projection'' = Some (Mat4V (glm_ortho (- 10) 10 (- 10) 10 0.1 100))"
proof -
  have a: "m_pShaderManager fresh \<noteq> None" by (simp add: fresh_fields)
  have c: "glfwGetCurrentContext \<lparr>glfwGetCurrentContext = Some both_keys, glfwGetTime = 0\<rparr> = Some both_keys"
    by simp
  have k: "keyPressed both_keys GLFW_KEY_P \<and> keyPressed both_keys GLFW_KEY_O"
    by (simp add: both_keys_def)
  show ?thesis
    using projection_last_write_wins[OF a fresh_fields(2) c] k by auto
qed

section \<open>Colour and texture\<close>

lemma at_draws_append:
  "at_draws name seen (xs @ ys) = at_draws name seen xs @ at_draws name (seen @ xs) ys"
  by (induction xs arbitrary: seen) simp_all

lemma at_draws_no_draw: "filter is_draw xs = [] \<Longrightarrow> at_draws name seen xs = []"
  by (induction xs arbitrary: seen) (simp_all split: if_splits)

lemma at_draws_material_calls [simp]: "at_draws name seen (material_calls s tag) = []"
  by (rule at_draws_no_draw) (rule no_draw_in_material_calls)

lemma use_texture_at_draws:
  "at_draws ''bUseTexture'' seen
     (frame_calls c c' slot (material_calls s t1) (material_calls s t2))
   = [Some (IntV 1), Some (IntV 0), Some (IntV 0), Some (IntV 0), Some (IntV 0), Some (IntV 0),
      Some (IntV 0), Some (IntV 0)]"
  by (simp add: frame_calls_def object_calls_def light_uniforms_def at_draws_append
      uniform_value_append uniform_value_material_calls)

lemma SetShaderTexture_preserves_manager:
  "SetShaderTexture tag s = Inr s1 \<Longrightarrow> m_pShaderManager s1 = m_pShaderManager s"
  by (auto simp: SetShaderTexture_def Let_def emit_def split: if_splits sum.splits)

lemma SetShaderColor_values:
  assumes "m_pShaderManager s \<noteq> None"
  shows "uniform_value (calls (SetShaderColor r g b a s)) ''bUseTexture'' = Some (IntV 0)"
    "uniform_value (calls (SetShaderColor r g b a s)) ''objectColor'' = Some (Vec4V (r, g, b, a))"
  using assms by (simp_all add: SetShaderColor_def emit_def Let_def uniform_value_append)

text \<open>
  Claim C10. When there is a shader manager, \<open>SetShaderColor\<close> leaves the use-texture
  flag at false and the colour at the given value, whatever the colour and whatever
  was set before, also right after a \<open>SetShaderTexture\<close>. In a frame, the flag is true
  at the first draw (the floor, textured) and false at each of the seven draws that
  follow a \<open>SetShaderColor\<close>.
\<close>

theorem color_switches_texture_off:
  assumes "m_pShaderManager s \<noteq> None"
  shows "uniform_value (calls (SetShaderColor r g b a s)) ''bUseTexture'' = Some (IntV 0)
     \<and> uniform_value (calls (SetShaderColor r g b a s)) ''objectColor'' = Some (Vec4V (r, g, b, a))
     \<and> (\<forall>s1. SetShaderTexture tag s = Inr s1 \<longrightarrow>
            uniform_value (calls (SetShaderColor r g b a s1)) ''bUseTexture'' = Some (IntV 0))
     \<and> (registry_ok s \<and> glfwGetCurrentContext env = Some window \<longrightarrow>
          (\<exists>s'. RenderScene env s = Inr s'
             \<and> at_draws ''bUseTexture'' (calls s) (drop (length (calls s)) (calls s')) =
                 [Some (IntV 1), Some (IntV 0), Some (IntV 0), Some (IntV 0), Some (IntV 0),
                  Some (IntV 0), Some (IntV 0), Some (IntV 0)]))"
proof (intro conjI allI impI)
  show "uniform_value (calls (SetShaderColor r g b a s)) ''bUseTexture'' = Some (IntV 0)"
    by (rule SetShaderColor_values[OF assms])
  show "uniform_value (calls (SetShaderColor r g b a s)) ''objectColor'' = Some (Vec4V (r, g, b, a))"
    by (rule SetShaderColor_values[OF assms])
  show "uniform_value (calls (SetShaderColor r g b a s1)) ''bUseTexture'' = Some (IntV 0)"
    if "SetShaderTexture tag s = Inr s1" for s1
    using SetShaderTexture_preserves_manager[OF that] assms by (intro SetShaderColor_values) simp
  show "\<exists>s'. RenderScene env s = Inr s'
             \<and> at_draws ''bUseTexture'' (calls s) (drop (length (calls s)) (calls s')) =
                 [Some (IntV 1), Some (IntV 0), Some (IntV 0), Some (IntV 0), Some (IntV 0),
                  Some (IntV 0), Some (IntV 0), Some (IntV 0)]"
    if h: "registry_ok s \<and> glfwGetCurrentContext env = Some window"
  proof -
    obtain sh where sh: "m_pShaderManager s = Some sh" using assms by auto
    obtain slot where slot: "FindTextureSlot s ''wood'' = Inr slot"
      using FindTextureSlot_returns h by blast
    show ?thesis
      using h by (simp add: RenderScene_effect[OF sh slot] use_texture_at_draws)
  qed
qed

text \<open>An instance: red after the wood texture, and one frame of the example registry.\<close>

theorem color_switches_texture_off_witness:
  "uniform_value (calls (SetShaderColor 1 0 0 1 example_registry)) ''bUseTexture'' = Some (IntV 0)
   \<and> uniform_value (calls (SetShaderColor 1 0 0 1 example_registry)) ''objectColor'' = Some (Vec4V (1, 0, 0, 1))
   \<and> (\<exists>s1. SetShaderTexture ''wood'' example_registry = Inr s1
          \<and> uniform_value (calls s1) ''bUseTexture'' = Some (IntV 1)
          \<and> uniform_value (calls (SetShaderColor 1 0 0 1 s1)) ''bUseTexture'' = Some (IntV 0))
   \<and> (\<exists>s'. RenderScene (frame_at 400 300 0) example_registry = Inr s'
          \<and> at_draws ''bUseTexture'' (calls example_registry)
               (drop (length (calls example_registry)) (calls s')) =
              [Some (IntV 1), Some (IntV 0), Some (IntV 0), Some (IntV 0), Some (IntV 0),
               Some (IntV 0), Some (IntV 0), Some (IntV 0)])"
proof -
  have a: "m_pShaderManager example_registry \<noteq> None" by (simp add: example_registry_def)
  have sh: "m_pShaderManager example_registry = Some ShaderManagerObject"
    by (simp add: example_registry_def)
  have k: "(1::nat) < length (registered example_registry)"
    "tex_tag (registered example_registry ! 1) = ''wood''"
    "\<forall>i<1. tex_tag (registered example_registry ! i) \<noteq> ''wood''"
    by (simp_all add: example_registered)
  have slot: "FindTextureSlot example_registry ''wood'' = Inr 1"
    using FindTextureSlot_first[OF example_registry_ok k] by simp
  have t: "SetShaderTexture ''wood'' example_registry =
      Inr (example_registry\<lparr>calls := calls example_registry @ [SetUniform ''bUseTexture'' (IntV 1),
                                 SetUniform ''objectTexture'' (Sampler2DV 1)]\<rparr>)"
    using SetShaderTexture_calls[OF sh slot] .
  have c: "glfwGetCurrentContext (frame_at 400 300 0) = Some (window_at 400 300)"
    by (simp add: frame_at_def)
  show ?thesis
    using color_switches_texture_off[OF a, of 1 0 0 1 "''wood''" "frame_at 400 300 0" "window_at 400 300"]
      t c example_registry_ok
    by (simp add: uniform_value_append)
qed

section \<open>Tags that were never registered\<close>

lemma SetShaderMaterial_absent:
  assumes "tag \<notin> mat_tag ` set (m_objectMaterials s)"
  shows "SetShaderMaterial tag s = Inr s"
  using FindMaterial_absent[OF assms, of unwritten_material]
  by (simp add: SetShaderMaterial_def)

text \<open>
  Claim C4, as the code has it. For a tag that no registered texture carries,
  \<open>FindTextureSlot\<close> returns \<open>-1\<close> and does not fail, and \<open>SetShaderTexture\<close> does not
  fall back: with a shader manager it sets the use-texture flag to true and the sampler
  to \<open>-1\<close>. For a tag that no material carries, \<open>FindMaterial\<close> returns false and
  \<open>SetShaderMaterial\<close> changes nothing: the material uniforms set before stay.
\<close>

theorem unregistered_tags_in_setters:
  assumes "registry_ok s"
  shows "(tag \<notin> tex_tag ` set (registered s) \<longrightarrow>
            FindTextureSlot s tag = Inr (- 1)
          \<and> SetShaderTexture tag s =
              (if m_pShaderManager s \<noteq> None
               then Inr (s\<lparr>calls := calls s @ [SetUniform ''bUseTexture'' (IntV 1),
                                               SetUniform ''objectTexture'' (Sampler2DV (- 1))]\<rparr>)
               else Inr s))
       \<and> (tag \<notin> mat_tag ` set (m_objectMaterials s) \<longrightarrow>
            FindMaterial s tag unwritten_material = (False, unwritten_material)
          \<and> SetShaderMaterial tag s = Inr s)"
proof (intro conjI impI)
  assume a: "tag \<notin> tex_tag ` set (registered s)"
  show slot: "FindTextureSlot s tag = Inr (- 1)"
    by (rule FindTextureSlot_absent[OF assms a])
  show "SetShaderTexture tag s =
              (if m_pShaderManager s \<noteq> None
               then Inr (s\<lparr>calls := calls s @ [SetUniform ''bUseTexture'' (IntV 1),
                                               SetUniform ''objectTexture'' (Sampler2DV (- 1))]\<rparr>)
               else Inr s)"
  proof (cases "m_pShaderManager s")
    case None
    then show ?thesis by (simp add: SetShaderTexture_def)
  next
    case (Some sh)
    then show ?thesis using SetShaderTexture_calls[OF Some slot] by simp
  qed
next
  assume b: "tag \<notin> mat_tag ` set (m_objectMaterials s)"
  show "FindMaterial s tag unwritten_material = (False, unwritten_material)"
    by (rule FindMaterial_absent[OF b])
  show "SetShaderMaterial tag s = Inr s"
    by (rule SetShaderMaterial_absent[OF b])
qed

text \<open>An instance: the tag stone, which the example registry does not have.\<close>

theorem unregistered_tags_in_setters_witness:
  "FindTextureSlot example_registry ''stone'' = Inr (- 1)
   \<and> SetShaderTexture ''stone'' example_registry =
       Inr (example_registry\<lparr>calls := [SetUniform ''bUseTexture'' (IntV 1),
                                        SetUniform ''objectTexture'' (Sampler2DV (- 1))]\<rparr>)
   \<and> FindMaterial example_registry ''stone'' unwritten_material = (False, unwritten_material)
   \<and> SetShaderMaterial ''stone'' example_registry = Inr example_registry"
proof -
  have a: "''stone'' \<notin> tex_tag ` set (registered example_registry)"
    by (simp add: example_registered)
  have b: "''stone'' \<notin> mat_tag ` set (m_objectMaterials example_registry)"
    by (simp add: example_registry_def woodMaterial_def whiteMaterial_def)
  have c: "m_pShaderManager example_registry \<noteq> None" "calls example_registry = []"
    by (simp_all add: example_registry_def)
  show ?thesis
    using unregistered_tags_in_setters[OF example_registry_ok, of "''stone''"] a b c by simp
qed

text \<open>
  The claim as stated fails for textures: after \<open>SetShaderTexture\<close> with a tag that was
  never registered the use-texture flag is true, so the next draw samples a texture,
  from unit \<open>-1\<close>.
\<close>

theorem unregistered_texture_switches_texturing_on:
  "SetShaderTexture ''stone'' example_registry =
       Inr (example_registry\<lparr>calls := [SetUniform ''bUseTexture'' (IntV 1),
                                        SetUniform ''objectTexture'' (Sampler2DV (- 1))]\<rparr>)
   \<and> uniform_value [SetUniform ''bUseTexture'' (IntV 1),
                     SetUniform ''objectTexture'' (Sampler2DV (- 1))] ''bUseTexture'' = Some (IntV 1)"
proof -
  have a: "''stone'' \<notin> tex_tag ` set (registered example_registry)"
    by (simp add: example_registered)
  have sh: "m_pShaderManager example_registry = Some ShaderManagerObject"
    by (simp add: example_registry_def)
  have "calls example_registry = []" by (simp add: example_registry_def)
  then show ?thesis
    using SetShaderTexture_calls[OF sh FindTextureSlot_absent[OF example_registry_ok a]] by simp
qed

section \<open>The scene build and the draws of a frame\<close>

lemma BindGLTextures_loop_result:
  "BindGLTextures_loop i s = Inr s' \<Longrightarrow>
     s' = s\<lparr>calls := calls s'\<rparr>
     \<and> (0 \<le> i \<and> i \<le> 16 \<longrightarrow> m_loadedTextures s \<le> 16)"
proof (induction i s rule: BindGLTextures_loop.induct)
  case (1 i s)
  show ?case
  proof (cases "i < m_loadedTextures s")
    case False
    then have "s' = s" using "1.prems" by (simp add: BindGLTextures_loop.simps[of i s])
    then show ?thesis using False by simp
  next
    case lt: True
    show ?thesis
    proof (cases "texture_at s i")
      case (Inl e)
      then show ?thesis using "1.prems" lt by (simp add: BindGLTextures_loop.simps[of i s])
    next
      case (Inr t)
      define s2 where "s2 = emit (glBindTexture (tex_ID t)) (emit (glActiveTexture i) s)"
      have r: "BindGLTextures_loop (i + 1) s2 = Inr s'"
        using "1.prems" lt Inr by (simp add: BindGLTextures_loop.simps[of i s] s2_def)
      have ih: "s' = s2\<lparr>calls := calls s'\<rparr>
          \<and> (0 \<le> i + 1 \<and> i + 1 \<le> 16 \<longrightarrow> m_loadedTextures s2 \<le> 16)"
        using "1.IH"[OF lt Inr] r unfolding s2_def by simp
      have i16: "0 \<le> i \<and> i < 16" using Inr by (simp add: texture_at_def split: if_splits)
      have a: "s' = s\<lparr>calls := calls s'\<rparr>"
        using ih by (simp add: s2_def emit_def)
      have b: "m_loadedTextures s \<le> 16"
        using ih i16 by (simp add: s2_def emit_def)
      show ?thesis using a b by simp
    qed
  qed
qed

lemma CreateGLTexture_result:
  assumes "CreateGLTexture stbi_load tid filename tag s = Inr (b, s')"
  shows "m_pShaderManager s' = m_pShaderManager s \<and> m_objectMaterials s' = m_objectMaterials s
     \<and> statics s' = statics s \<and> length (m_textureIDs s') = length (m_textureIDs s)
     \<and> m_loadedTextures s' =
          (if b then m_loadedTextures s + 1 else m_loadedTextures s)
     \<and> (b \<longrightarrow> m_loadedTextures s < 16)"
  using assms
  by (auto simp: CreateGLTexture_def Let_def emit_def split: option.splits if_splits)

lemma CreateGLTexture_flag:
  assumes "CreateGLTexture stbi_load tid filename tag s = Inr (b, s')"
  shows "b = (case stbi_load filename of
                Some img \<Rightarrow> colorChannels img = 3 \<or> colorChannels img = 4
              | None \<Rightarrow> False)"
  using assms
  by (auto simp: CreateGLTexture_def Let_def emit_def split: option.splits if_splits)

lemma construct_fields:
  "m_pShaderManager (construct p n ids) = p" "m_loadedTextures (construct p n ids) = n"
  "length (m_textureIDs (construct p n ids)) = 16" "m_objectMaterials (construct p n ids) = []"
  "statics (construct p n ids) = initial_camera" "calls (construct p n ids) = []"
  by (simp_all add: construct_def)


lemma PrepareScene_result:
  assumes "PrepareScene stbi_load tid (construct p n ids) = Inr s1"
  shows "m_pShaderManager s1 = p \<and> registry_ok s1
     \<and> m_objectMaterials s1 = [woodMaterial, whiteMaterial]
     \<and> statics s1 = initial_camera
     \<and> m_loadedTextures s1 =
         (case stbi_load ''Debug/wood.jpg'' of
            Some img \<Rightarrow> if colorChannels img = 3 \<or> colorChannels img = 4 then n + 1 else n
          | None \<Rightarrow> n)"
proof -
  define cnt where "cnt = (case stbi_load ''Debug/wood.jpg'' of
            Some img \<Rightarrow> if colorChannels img = 3 \<or> colorChannels img = 4 then n + 1 else n
          | None \<Rightarrow> n)"
  define s0 where "s0 = emit LoadTorusMesh (emit LoadCylinderMesh (emit LoadPlaneMesh (construct p n ids)))"
  have s0: "m_pShaderManager s0 = p" "m_loadedTextures s0 = n" "length (m_textureIDs s0) = 16"
    "m_objectMaterials s0 = []" "statics s0 = initial_camera"
    by (simp_all add: s0_def emit_def construct_fields)
  obtain b sa where c: "CreateGLTexture stbi_load tid ''Debug/wood.jpg'' ''wood'' s0 = Inr (b, sa)"
    using assms unfolding PrepareScene_def s0_def
    by (auto simp: ok_def split: sum.splits)
  have sa: "m_pShaderManager sa = p" "m_objectMaterials sa = []" "statics sa = initial_camera"
    "length (m_textureIDs sa) = 16" "m_loadedTextures sa = cnt"
    using CreateGLTexture_result[OF c] CreateGLTexture_flag[OF c] s0
    by (auto simp: cnt_def split: if_splits option.splits)
  define sb where "sb = SetTextureUVScale 8.0 4.0 sa"
  have sb: "m_pShaderManager sb = p" "m_objectMaterials sb = []" "statics sb = initial_camera"
    "length (m_textureIDs sb) = 16" "m_loadedTextures sb = cnt"
    using sa by (simp_all add: sb_def SetTextureUVScale_def emit_def)
  obtain sc where d: "BindGLTextures_loop 0 sb = Inr sc"
    using assms c unfolding PrepareScene_def s0_def[symmetric] sb_def
    by (auto simp: ok_def BindGLTextures_def s0_def split: sum.splits)
  have sc: "sc = sb\<lparr>calls := calls sc\<rparr>" "m_loadedTextures sb \<le> 16"
    using BindGLTextures_loop_result[OF d] by simp_all
  have s1: "s1 = push_back whiteMaterial (push_back woodMaterial sc)"
    using assms c d unfolding PrepareScene_def
    by (simp add: ok_def BindGLTextures_def s0_def sb_def)
  have f: "m_pShaderManager sc = p" "m_objectMaterials sc = []" "statics sc = initial_camera"
    "length (m_textureIDs sc) = 16" "m_loadedTextures sc = m_loadedTextures sb"
    using sb by (subst sc(1), simp)+
  show ?thesis
    unfolding cnt_def[symmetric]
    using f sb(5) sc(2) by (auto simp: s1 push_back_def registry_ok_def)
qed

lemma run_frames_preserves:
  assumes "m_pShaderManager s = Some sh" "registry_ok s" "run_frames envs s = Inr s'"
  shows "m_pShaderManager s' = Some sh \<and> registry_ok s' \<and> m_objectMaterials s' = m_objectMaterials s"
  using assms
proof (induction envs arbitrary: s)
  case Nil
  then show ?case by simp
next
  case (Cons env envs)
  obtain s1 where s1: "RenderScene env s = Inr s1" "m_pShaderManager s1 = Some sh" "registry_ok s1"
    "m_objectMaterials s1 = m_objectMaterials s"
    using RenderScene_returns[OF Cons.prems(1,2), of env] by blast
  have "run_frames envs s1 = Inr s'" using Cons.prems(3) s1(1) by simp
  from Cons.IH[OF s1(2,3) this] show ?case using s1(4) by simp
qed

lemma fresh_length: "length (m_textureIDs fresh) = 16"
  by (simp add: fresh_def construct_def)

lemma PrepareScene_fresh: "PrepareScene example_load 1 fresh = Inr built"
  by (simp add: PrepareScene_def ok_def emit_def CreateGLTexture_def Let_def example_load_def
      SetTextureUVScale_def BindGLTextures_def BindGLTextures_loop.simps texture_at_def
      push_back_def fresh_fields fresh_length built_def)

lemma PrepareScene_fresh_no_file: "PrepareScene no_file 1 fresh = Inr built_without_texture"
  by (simp add: PrepareScene_def ok_def emit_def CreateGLTexture_def Let_def no_file_def
      SetTextureUVScale_def BindGLTextures_def BindGLTextures_loop.simps texture_at_def
      push_back_def fresh_fields fresh_length built_without_texture_def)

lemma RenderScene_no_context: "RenderScene no_context s = Inr s"
  by (simp add: RenderScene_def no_context_def)


lemma material_calls_wood:
  assumes "m_objectMaterials s = [woodMaterial, whiteMaterial]"
  shows "material_calls s ''woodMaterial'' =
     [SetUniform ''material.ambientColor'' (Vec3V (ambientColor woodMaterial)),
      SetUniform ''material.ambientStrength'' (FloatV (ambientStrength woodMaterial)),
      SetUniform ''material.diffuseColor'' (Vec3V (diffuseColor woodMaterial)),
      SetUniform ''material.specularColor'' (Vec3V (specularColor woodMaterial)),
      SetUniform ''material.shininess'' (FloatV (shininess woodMaterial))]"
proof -
  have "FindMaterial s ''woodMaterial'' unwritten_material = (True, m_objectMaterials s ! 0)"
    by (rule FindMaterial_first) (simp_all add: assms woodMaterial_def)
  then show ?thesis by (simp add: material_calls_def assms)
qed

lemma material_calls_white:
  assumes "m_objectMaterials s = [woodMaterial, whiteMaterial]"
  shows "material_calls s ''whiteMaterial'' =
     [SetUniform ''material.ambientColor'' (Vec3V (ambientColor whiteMaterial)),
      SetUniform ''material.ambientStrength'' (FloatV (ambientStrength whiteMaterial)),
      SetUniform ''material.diffuseColor'' (Vec3V (diffuseColor whiteMaterial)),
      SetUniform ''material.specularColor'' (Vec3V (specularColor whiteMaterial)),
      SetUniform ''material.shininess'' (FloatV (shininess whiteMaterial))]"
proof -
  have "FindMaterial s ''whiteMaterial'' unwritten_material = (True, m_objectMaterials s ! 1)"
    by (rule FindMaterial_first) (simp_all add: assms woodMaterial_def whiteMaterial_def)
  then show ?thesis by (simp add: material_calls_def assms)
qed

lemma segments_append_no_draw:
  "filter is_draw xs = [] \<Longrightarrow> segments acc (xs @ ys) = segments (acc @ xs) ys"
  by (induction xs arbitrary: acc) (simp_all split: if_splits)

lemma no_draw_in_lights:
  "filter is_draw (map (\<lambda>(name, v). SetUniform name v) xs) = []"
  by (induction xs) auto

lemma frame_segments:
  fixes wd wh :: OBJECT_MATERIAL
  defines "W \<equiv> [SetUniform ''material.ambientColor'' (Vec3V (ambientColor wd)),
      SetUniform ''material.ambientStrength'' (FloatV (ambientStrength wd)),
      SetUniform ''material.diffuseColor'' (Vec3V (diffuseColor wd)),
      SetUniform ''material.specularColor'' (Vec3V (specularColor wd)),
      SetUniform ''material.shininess'' (FloatV (shininess wd))]"
    and "H \<equiv> [SetUniform ''material.ambientColor'' (Vec3V (ambientColor wh)),
      SetUniform ''material.ambientStrength'' (FloatV (ambientStrength wh)),
      SetUniform ''material.diffuseColor'' (Vec3V (diffuseColor wh)),
      SetUniform ''material.specularColor'' (Vec3V (specularColor wh)),
      SetUniform ''material.shininess'' (FloatV (shininess wh))]"
  shows "map snd (segments [] (frame_calls c c' slot W H)) =
           [DrawPlaneMesh, DrawCylinderMesh, DrawTorusMesh, DrawTorusMesh, DrawPlaneMesh,
            DrawCylinderMesh, DrawPlaneMesh, DrawPlaneMesh]"
    and "list_all prepared (map fst (segments [] (frame_calls c c' slot W H)))"
    and "map (\<lambda>seg. uniform_value (fst seg) ''model'') (segments [] (frame_calls c c' slot W H)) =
           map (\<lambda>m. Some (Mat4V m)) object_transforms"
proof -
  have seg: "segments [] (frame_calls c c' slot W H) =
     segments ([glClearColor (0.05, 0.05, 0.1, 1.0), glClear, glfwSetWindowUserPointer, glfwSetScrollCallback,
      SetUniform ''viewPos'' (Vec3F (cameraPos c)),
      SetUniform ''bUseLighting'' (IntV 1)]
     @ map (\<lambda>(name, v). SetUniform name v) (light_uniforms (cameraPos c) (cameraFront c))
     @ [SetUniform ''view'' (Mat4F (view_matrix c')),
        SetUniform ''projection'' (Mat4V (projection_matrix c'))]) (object_calls slot W H)"
    unfolding frame_calls_def
    by (subst append_assoc[symmetric], subst append_assoc[symmetric],
        subst segments_append_no_draw) (simp_all add: no_draw_in_lights)
  show "map snd (segments [] (frame_calls c c' slot W H)) =
           [DrawPlaneMesh, DrawCylinderMesh, DrawTorusMesh, DrawTorusMesh, DrawPlaneMesh,
            DrawCylinderMesh, DrawPlaneMesh, DrawPlaneMesh]"
    unfolding seg by (simp add: object_calls_def W_def H_def)
  show "list_all prepared (map fst (segments [] (frame_calls c c' slot W H)))"
    unfolding seg by (simp add: object_calls_def W_def H_def prepared_def)
  show "map (\<lambda>seg. uniform_value (fst seg) ''model'') (segments [] (frame_calls c c' slot W H)) =
           map (\<lambda>m. Some (Mat4V m)) object_transforms"
    unfolding seg
    by (simp add: object_calls_def W_def H_def object_transforms_def uniform_value_append)
qed

text \<open>
  Claim C9, as the code has it. \<open>PrepareScene\<close> on a newly constructed manager, when it
  returns, has registered the two materials, and one texture when the wood image
  decodes with 3 or 4 channels (none otherwise). After it and any number of frames,
  every frame that has a current context returns and makes exactly eight draws, in
  the order plane, cylinder, torus, torus, plane, cylinder, plane, plane (floor, mug
  body, mug rim, mug handle, notebook, pen, laptop base, laptop screen); the calls
  before each draw and after the previous one set the model matrix of that object,
  a material or a colour, and the use-texture flag.
\<close>

theorem eight_draws_per_frame:
  assumes "PrepareScene stbi_load tid (construct (Some sh) n ids) = Inr s1"
    and "run_frames envs s1 = Inr s"
    and "glfwGetCurrentContext env = Some window"
  shows "m_objectMaterials s1 = [woodMaterial, whiteMaterial]
     \<and> m_loadedTextures s1 =
         (case stbi_load ''Debug/wood.jpg'' of
            Some img \<Rightarrow> if colorChannels img = 3 \<or> colorChannels img = 4 then n + 1 else n
          | None \<Rightarrow> n)
     \<and> (\<exists>s'. RenderScene env s = Inr s'
          \<and> map snd (segments [] (drop (length (calls s)) (calls s'))) =
               [DrawPlaneMesh, DrawCylinderMesh, DrawTorusMesh, DrawTorusMesh, DrawPlaneMesh,
                DrawCylinderMesh, DrawPlaneMesh, DrawPlaneMesh]
          \<and> list_all prepared (map fst (segments [] (drop (length (calls s)) (calls s'))))
          \<and> map (\<lambda>seg. uniform_value (fst seg) ''model'')
                (segments [] (drop (length (calls s)) (calls s'))) =
               map (\<lambda>m. Some (Mat4V m)) object_transforms)"
proof -
  note p = PrepareScene_result[OF assms(1)]
  have sh1: "m_pShaderManager s1 = Some sh" and ok1: "registry_ok s1"
    and m1: "m_objectMaterials s1 = [woodMaterial, whiteMaterial]"
    using p by simp_all
  have sh: "m_pShaderManager s = Some sh" and ok: "registry_ok s"
    and m: "m_objectMaterials s = [woodMaterial, whiteMaterial]"
    using run_frames_preserves[OF sh1 ok1 assms(2)] m1 by simp_all
  obtain slot where slot: "FindTextureSlot s ''wood'' = Inr slot"
    using FindTextureSlot_returns[OF ok] by blast
  define s' where "s' = s\<lparr>statics := update_camera (glfwGetTime env) window (statics s),
            calls := calls s @ frame_calls (statics s)
                       (update_camera (glfwGetTime env) window (statics s)) slot
                       (material_calls s ''woodMaterial'') (material_calls s ''whiteMaterial'')\<rparr>"
  have r: "RenderScene env s = Inr s'"
    unfolding s'_def by (rule RenderScene_effect[OF sh slot assms(3)])
  have d: "drop (length (calls s)) (calls s') =
      frame_calls (statics s) (update_camera (glfwGetTime env) window (statics s)) slot
        (material_calls s ''woodMaterial'') (material_calls s ''whiteMaterial'')"
    by (simp add: s'_def)
  have g1: "map snd (segments [] (drop (length (calls s)) (calls s'))) =
               [DrawPlaneMesh, DrawCylinderMesh, DrawTorusMesh, DrawTorusMesh, DrawPlaneMesh,
                DrawCylinderMesh, DrawPlaneMesh, DrawPlaneMesh]"
    unfolding d material_calls_wood[OF m] material_calls_white[OF m] by (rule frame_segments)
  have g2: "list_all prepared (map fst (segments [] (drop (length (calls s)) (calls s'))))"
    unfolding d material_calls_wood[OF m] material_calls_white[OF m] by (rule frame_segments)
  have g3: "map (\<lambda>seg. uniform_value (fst seg) ''model'')
                (segments [] (drop (length (calls s)) (calls s'))) =
               map (\<lambda>m. Some (Mat4V m)) object_transforms"
    unfolding d material_calls_wood[OF m] material_calls_white[OF m] by (rule frame_segments)
  have cnt: "m_loadedTextures s1 =
         (case stbi_load ''Debug/wood.jpg'' of
            Some img \<Rightarrow> if colorChannels img = 3 \<or> colorChannels img = 4 then n + 1 else n
          | None \<Rightarrow> n)"
    using p by (elim conjE)
  show ?thesis
  proof (intro conjI exI[of _ s'])
    show "m_objectMaterials s1 = [woodMaterial, whiteMaterial]" by (rule m1)
    show "m_loadedTextures s1 =
         (case stbi_load ''Debug/wood.jpg'' of
            Some img \<Rightarrow> if colorChannels img = 3 \<or> colorChannels img = 4 then n + 1 else n
          | None \<Rightarrow> n)" by (rule cnt)
    show "RenderScene env s = Inr s'" by (rule r)
    show "map snd (segments [] (drop (length (calls s)) (calls s'))) =
               [DrawPlaneMesh, DrawCylinderMesh, DrawTorusMesh, DrawTorusMesh, DrawPlaneMesh,
                DrawCylinderMesh, DrawPlaneMesh, DrawPlaneMesh]" by (rule g1)
    show "list_all prepared (map fst (segments [] (drop (length (calls s)) (calls s'))))"
      by (rule g2)
    show "map (\<lambda>seg. uniform_value (fst seg) ''model'')
                (segments [] (drop (length (calls s)) (calls s'))) =
               map (\<lambda>m. Some (Mat4V m)) object_transforms" by (rule g3)
  qed
qed

text \<open>An instance: the scene built on a fresh manager with the image present, then a frame.\<close>

theorem eight_draws_per_frame_witness:
  "m_objectMaterials built = [woodMaterial, whiteMaterial]
   \<and> m_loadedTextures built = 1
   \<and> (\<exists>s'. RenderScene (frame_at 400 300 0) built = Inr s'
          \<and> map snd (segments [] (drop (length (calls built)) (calls s'))) =
               [DrawPlaneMesh, DrawCylinderMesh, DrawTorusMesh, DrawTorusMesh, DrawPlaneMesh,
                DrawCylinderMesh, DrawPlaneMesh, DrawPlaneMesh]
          \<and> list_all prepared (map fst (segments [] (drop (length (calls built)) (calls s'))))
          \<and> map (\<lambda>seg. uniform_value (fst seg) ''model'')
                (segments [] (drop (length (calls built)) (calls s'))) =
               map (\<lambda>m. Some (Mat4V m)) object_transforms)"
proof -
  have a: "PrepareScene example_load 1 (construct (Some ShaderManagerObject) 0 (\<lambda>i. 0)) = Inr built"
    using PrepareScene_fresh by (simp add: fresh_def)
  have b: "run_frames [no_context] built = Inr built"
    by (simp add: RenderScene_no_context)
  have c: "glfwGetCurrentContext (frame_at 400 300 0) = Some (window_at 400 300)"
    by (simp add: frame_at_def)
  have l: "(case example_load ''Debug/wood.jpg'' of
            Some img \<Rightarrow> if colorChannels img = 3 \<or> colorChannels img = 4 then (0::int) + 1 else 0
          | None \<Rightarrow> 0) = 1"
    by (simp add: example_load_def)
  show ?thesis
    using eight_draws_per_frame[OF a b c] unfolding l .
qed

text \<open>
  The claim as stated fails in two places. A frame on a thread without a current
  context returns at once and draws nothing. And when the image does not load,
  \<open>PrepareScene\<close> goes on and registers no texture.
\<close>

theorem no_context_no_draws:
  "PrepareScene example_load 1 fresh = Inr built
   \<and> RenderScene no_context built = Inr built
   \<and> filter is_draw (drop (length (calls built)) (calls built)) = []
   \<and> PrepareScene no_file 1 fresh = Inr built_without_texture
   \<and> m_loadedTextures built_without_texture = 0"
  by (simp add: PrepareScene_fresh PrepareScene_fresh_no_file RenderScene_no_context
      built_without_texture_def fresh_fields)

end
